theory Spec2Isabelle
  imports Main "HOL-Library.Sublist" "HOL-Library.AList"
begin

section \<open>Host values, statuses and exceptions\<close>

text \<open>
  \<^verbatim>\<open>covalent/_shared_files/util_classes.py\<close>: \<^verbatim>\<open>Status\<close> is a dataclass with the single
  field \<^verbatim>\<open>STATUS\<close>; two statuses are equal when their tags are.
\<close>

datatype Status = Status (STATUS: string)

definition NEW_OBJECT :: Status where "NEW_OBJECT = Status ''NEW_OBJECT''"
definition COMPLETED :: Status where "COMPLETED = Status ''COMPLETED''"
definition FAILED :: Status where "FAILED = Status ''FAILED''"
definition RUNNING :: Status where "RUNNING = Status ''RUNNING''"
definition CANCELLED :: Status where "CANCELLED = Status ''CANCELLED''"
definition POSTPROCESSING :: Status where "POSTPROCESSING = Status ''POSTPROCESSING''"
definition PENDING_POSTPROCESSING :: Status where
  "PENDING_POSTPROCESSING = Status ''PENDING_POSTPROCESSING''"
definition POSTPROCESSING_FAILED :: Status where
  "POSTPROCESSING_FAILED = Status ''POSTPROCESSING_FAILED''"

lemmas status_defs =
  NEW_OBJECT_def COMPLETED_def FAILED_def RUNNING_def CANCELLED_def
  POSTPROCESSING_def PENDING_POSTPROCESSING_def POSTPROCESSING_FAILED_def

text \<open>A reading of \<^verbatim>\<open>datetime.now(timezone.utc)\<close>; the readings are opaque.\<close>

type_synonym datetime = nat

text \<open>
  Python values as the dispatcher handles them. A finite float is a mantissa and a binary
  exponent; no arithmetic is done on floats here. \<open>PyDict\<close> is an insertion-ordered
  dictionary with string keys; \<open>TransportableObject\<close> is the serialized container;
  \<open>PyFunction\<close> is a module-level function, by name; \<open>PyResult\<close> is a \<^verbatim>\<open>Result\<close>
  object as a task sees it, by its \<^verbatim>\<open>status\<close> and \<^verbatim>\<open>encoded_result\<close> attributes;
  \<open>PyObject\<close> is any other host object, named by a number.
\<close>

datatype pyfloat = Finite int int | NaN | Infinity | NegInfinity

datatype pyval =
    PyNone
  | PyBool bool
  | PyInt int
  | PyFloat pyfloat
  | PyStr string
  | PyList "pyval list"
  | PyDict "(string \<times> pyval) list"
  | PyStatus Status
  | PyDatetime datetime
  | TransportableObject pyval
  | PyFunction string
  | PyResult Status pyval
  | PyObject nat

text \<open>The exceptions the dispatcher raises or lets through.\<close>

datatype exn =
    KeyError string
  | IndexError
  | TypeError
  | AttributeError string
  | RuntimeError string
  | NotImplementedError
  | OtherException string

text \<open>\<^verbatim>\<open>str.startswith\<close>.\<close>

definition startswith :: "string \<Rightarrow> string \<Rightarrow> bool" where
  "startswith s p = prefix p s"

text \<open>
  Modelled from the spec: the marker prefixes of \<^verbatim>\<open>covalent._shared_files.defaults\<close>,
  which is not among the source files; the values are those of the spec's marker table.
\<close>

definition prefix_separator :: string where "prefix_separator = '':''"
definition parameter_prefix :: string where "parameter_prefix = '':parameter:''"
definition subscript_prefix :: string where "subscript_prefix = '':subscript:''"
definition attr_prefix :: string where "attr_prefix = '':attribute:''"
definition generator_prefix :: string where "generator_prefix = '':generator:''"
definition electron_list_prefix :: string where "electron_list_prefix = '':electron_list:''"
definition electron_dict_prefix :: string where "electron_dict_prefix = '':electron_dict:''"
definition sublattice_prefix :: string where "sublattice_prefix = '':sublattice:''"

lemmas prefix_defs =
  prefix_separator_def parameter_prefix_def subscript_prefix_def attr_prefix_def
  generator_prefix_def electron_list_prefix_def electron_dict_prefix_def sublattice_prefix_def

text \<open>
  Modelled from the spec: \<^verbatim>\<open>TransportableObject.make_transportable\<close> (the spec's
  \<^verbatim>\<open>wrap\<close>) of the transport module, which is not among the source files: a value
  that is already transportable is returned as it is, any other value is wrapped.
\<close>

fun make_transportable :: "pyval \<Rightarrow> pyval" where
  "make_transportable (TransportableObject v) = TransportableObject v"
| "make_transportable v = TransportableObject v"

section \<open>Transport graph\<close>

text \<open>
  Modelled from the spec: the transport graph class is not among the source files. A
  node is an attribute bag; an edge carries its parameter-binding record. The graph's
  shape is fixed during a dispatch, so \<^verbatim>\<open>get_dependencies\<close>, \<^verbatim>\<open>get_edge_data\<close> and
  \<^verbatim>\<open>get_topologically_sorted_graph\<close> are tables of the graph; only the attribute
  bags change.
\<close>

record edge =
  param_type :: string
  edge_name :: string

type_synonym node_id = int

record TransportGraph =
  tg_nodes :: "node_id \<Rightarrow> (string \<Rightarrow> pyval option) option"
  tg_dependencies :: "node_id \<Rightarrow> node_id list"
  tg_edge_data :: "node_id \<Rightarrow> node_id \<Rightarrow> edge list"
  tg_order :: "node_id list list"

definition get_dependencies :: "TransportGraph \<Rightarrow> node_id \<Rightarrow> node_id list" where
  "get_dependencies g n = tg_dependencies g n"

definition get_edge_data :: "TransportGraph \<Rightarrow> node_id \<Rightarrow> node_id \<Rightarrow> edge list" where
  "get_edge_data g p n = tg_edge_data g p n"

definition get_topologically_sorted_graph :: "TransportGraph \<Rightarrow> node_id list list" where
  "get_topologically_sorted_graph g = tg_order g"

text \<open>Reading an attribute of a node that has no such attribute raises \<^verbatim>\<open>KeyError\<close>.\<close>

definition get_node_value :: "TransportGraph \<Rightarrow> node_id \<Rightarrow> string \<Rightarrow> exn + pyval" where
  "get_node_value g n k =
     (case tg_nodes g n of
        None \<Rightarrow> Inl (KeyError ''node'')
      | Some bag \<Rightarrow> (case bag k of None \<Rightarrow> Inl (KeyError k) | Some v \<Rightarrow> Inr v))"

definition set_node_value :: "TransportGraph \<Rightarrow> node_id \<Rightarrow> string \<Rightarrow> pyval \<Rightarrow> exn + TransportGraph" where
  "set_node_value g n k v =
     (case tg_nodes g n of
        None \<Rightarrow> Inl (KeyError ''node'')
      | Some bag \<Rightarrow> Inr (g\<lparr>tg_nodes := (tg_nodes g)(n := Some (bag(k := Some v)))\<rparr>))"

section \<open>Result object\<close>

text \<open>
  Modelled from the spec: the classes \<^verbatim>\<open>Lattice\<close> and \<^verbatim>\<open>Result\<close> are not among the
  source files. A lattice is its transport graph and its metadata dictionary
  (\<^verbatim>\<open>get_metadata\<close> is a lookup that gives \<^verbatim>\<open>None\<close> for a missing key); a
  \<^verbatim>\<open>Result\<close> holds the lattice and the fields \<^verbatim>\<open>_dispatch_id\<close>, \<^verbatim>\<open>_results_dir\<close>,
  \<^verbatim>\<open>_status\<close>, \<^verbatim>\<open>_start_time\<close>, \<^verbatim>\<open>_end_time\<close>, \<^verbatim>\<open>_error\<close> and \<^verbatim>\<open>_result\<close>, each
  written here with the prefix \<open>r\<close>.
\<close>

record Lattice =
  transport_graph :: TransportGraph
  metadata :: "string \<Rightarrow> pyval option"

record Result =
  r_dispatch_id :: string
  r_results_dir :: string
  lattice :: Lattice
  r_status :: Status
  r_start_time :: "datetime option"
  r_end_time :: "datetime option"
  r_error :: "string option"
  r_result :: pyval

definition get_metadata :: "Lattice \<Rightarrow> string \<Rightarrow> pyval" where
  "get_metadata l k = (case metadata l k of None \<Rightarrow> PyNone | Some v \<Rightarrow> v)"

text \<open>An optional time, status or string as a Python value: \<^verbatim>\<open>None\<close> is \<open>PyNone\<close>.\<close>

definition opt_datetime :: "datetime option \<Rightarrow> pyval" where
  "opt_datetime t = (case t of None \<Rightarrow> PyNone | Some d \<Rightarrow> PyDatetime d)"

definition opt_str :: "string option \<Rightarrow> pyval" where
  "opt_str e = (case e of None \<Rightarrow> PyNone | Some s \<Rightarrow> PyStr s)"

definition opt_status :: "Status option \<Rightarrow> pyval" where
  "opt_status st = (case st of None \<Rightarrow> PyNone | Some s \<Rightarrow> PyStatus s)"

section \<open>Task-input assembly\<close>

text \<open>\<^verbatim>\<open>covalent_dispatcher/_core/execution.py\<close>, \<^verbatim>\<open>_get_task_inputs\<close>.\<close>

record task_input =
  args :: "pyval list"
  kwargs :: "(string \<times> pyval) list"

text \<open>The list comprehension of the list-collection branch, parent by parent.\<close>

fun parent_outputs :: "TransportGraph \<Rightarrow> node_id list \<Rightarrow> exn + pyval list" where
  "parent_outputs g [] = Inr []"
| "parent_outputs g (parent # ps) =
     (case get_node_value g parent ''output'' of
        Inl e \<Rightarrow> Inl e
      | Inr v \<Rightarrow> (case parent_outputs g ps of Inl e \<Rightarrow> Inl e | Inr vs \<Rightarrow> Inr (v # vs)))"

text \<open>The dict-collection branch: \<^verbatim>\<open>values[d["edge_name"]] = value\<close> for every edge.\<close>

fun dict_edges :: "pyval \<Rightarrow> edge list \<Rightarrow> (string \<times> pyval) list \<Rightarrow> (string \<times> pyval) list" where
  "dict_edges v [] values = values"
| "dict_edges v (d # ds) values = dict_edges v ds (AList.update (edge_name d) v values)"

fun dict_parents ::
  "TransportGraph \<Rightarrow> node_id \<Rightarrow> node_id list \<Rightarrow> (string \<times> pyval) list \<Rightarrow> exn + (string \<times> pyval) list"
where
  "dict_parents g n [] values = Inr values"
| "dict_parents g n (parent # ps) values =
     (case get_node_value g parent ''output'' of
        Inl e \<Rightarrow> Inl e
      | Inr v \<Rightarrow> dict_parents g n ps (dict_edges v (get_edge_data g parent n) values))"

text \<open>The regular branch: positional edges append, keyword edges bind by name.\<close>

fun regular_edges :: "pyval \<Rightarrow> edge list \<Rightarrow> task_input \<Rightarrow> task_input" where
  "regular_edges v [] ti = ti"
| "regular_edges v (d # ds) ti =
     regular_edges v ds
       (if param_type d = ''arg'' then ti\<lparr>args := args ti @ [v]\<rparr>
        else if param_type d = ''kwarg'' then ti\<lparr>kwargs := AList.update (edge_name d) v (kwargs ti)\<rparr>
        else ti)"

fun regular_parents ::
  "TransportGraph \<Rightarrow> node_id \<Rightarrow> node_id list \<Rightarrow> task_input \<Rightarrow> exn + task_input"
where
  "regular_parents g n [] ti = Inr ti"
| "regular_parents g n (parent # ps) ti =
     (case get_node_value g parent ''output'' of
        Inl e \<Rightarrow> Inl e
      | Inr v \<Rightarrow> regular_parents g n ps (regular_edges v (get_edge_data g parent n) ti))"

definition get_task_inputs :: "node_id \<Rightarrow> string \<Rightarrow> TransportGraph \<Rightarrow> exn + task_input" where
  "get_task_inputs n node_name g =
     (if startswith node_name electron_list_prefix then
        (case parent_outputs g (get_dependencies g n) of
           Inl e \<Rightarrow> Inl e
         | Inr values \<Rightarrow>
             Inr \<lparr>args = [], kwargs = [(''x'', make_transportable (PyList values))]\<rparr>)
      else if startswith node_name electron_dict_prefix then
        (case dict_parents g n (get_dependencies g n) [] of
           Inl e \<Rightarrow> Inl e
         | Inr values \<Rightarrow>
             Inr \<lparr>args = [], kwargs = [(''x'', make_transportable (PyDict values))]\<rparr>)
      else regular_parents g n (get_dependencies g n) \<lparr>args = [], kwargs = []\<rparr>)"

subsection \<open>Example graphs\<close>

text \<open>
  The list-collection scenario: three parameter nodes with outputs 1, 2, 3 feed the
  list-collection node 3, in that order.
\<close>

definition s2_graph :: TransportGraph where
  "s2_graph =
     \<lparr>tg_nodes = map_of
        [(0, map_of [(''name'', PyStr '':parameter:1''), (''output'', PyInt 1)]),
         (1, map_of [(''name'', PyStr '':parameter:2''), (''output'', PyInt 2)]),
         (2, map_of [(''name'', PyStr '':parameter:3''), (''output'', PyInt 3)]),
         (3, map_of [(''name'', PyStr '':electron_list:'')])],
      tg_dependencies = (\<lambda>n. if n = 3 then [0, 1, 2] else []),
      tg_edge_data = (\<lambda>p n. if n = 3 then [\<lparr>param_type = ''kwarg'', edge_name = ''x''\<rparr>] else []),
      tg_order = [[0, 1, 2], [3]]\<rparr>"

text \<open>
  The same nodes, with the edges into node 3 added from node 2, then node 0, then node 1.
\<close>

definition unsorted_graph :: TransportGraph where
  "unsorted_graph = s2_graph\<lparr>tg_dependencies := (\<lambda>n. if n = 3 then [2, 0, 1] else [])\<rparr>"

text \<open>
  Node 1 has two parents: node 0 through a keyword edge \<open>a\<close> and node 2 through a
  wait-only edge. Parent outputs are 5 and 7.
\<close>

definition wait_graph :: TransportGraph where
  "wait_graph =
     \<lparr>tg_nodes = map_of
        [(0, map_of [(''name'', PyStr ''square''), (''output'', PyInt 5)]),
         (1, map_of [(''name'', PyStr ''child'')]),
         (2, map_of [(''name'', PyStr ''cube''), (''output'', PyInt 7)])],
      tg_dependencies = (\<lambda>n. if n = 1 then [0, 2] else []),
      tg_edge_data = (\<lambda>p n.
        if p = 0 \<and> n = 1 then [\<lparr>param_type = ''kwarg'', edge_name = ''a''\<rparr>]
        else if p = 2 \<and> n = 1 then [\<lparr>param_type = ''wait_only'', edge_name = ''!waiting_edge''\<rparr>]
        else []),
      tg_order = [[0, 2], [1]]\<rparr>"

text \<open>The same graph with every wait-only edge record removed.\<close>

definition drop_wait_edges :: "TransportGraph \<Rightarrow> TransportGraph" where
  "drop_wait_edges g =
     g\<lparr>tg_edge_data := \<lambda>p c. filter (\<lambda>d. param_type d \<noteq> ''wait_only'') (tg_edge_data g p c)\<rparr>"

subsection \<open>Properties of input assembly\<close>

lemma regular_edges_drop_wait:
  "regular_edges v (filter (\<lambda>d. param_type d \<noteq> ''wait_only'') ds) ti = regular_edges v ds ti"
  by (induction ds arbitrary: ti) simp_all

lemma get_node_value_drop_wait [simp]:
  "get_node_value (drop_wait_edges g) p k = get_node_value g p k"
  by (simp add: get_node_value_def drop_wait_edges_def)

lemma get_dependencies_drop_wait [simp]:
  "get_dependencies (drop_wait_edges g) n = get_dependencies g n"
  by (simp add: get_dependencies_def drop_wait_edges_def)

lemma get_edge_data_drop_wait:
  "get_edge_data (drop_wait_edges g) p n =
     filter (\<lambda>d. param_type d \<noteq> ''wait_only'') (get_edge_data g p n)"
  by (simp add: get_edge_data_def drop_wait_edges_def)

lemma regular_parents_drop_wait:
  "regular_parents (drop_wait_edges g) n ps ti = regular_parents g n ps ti"
  by (induction ps arbitrary: ti)
     (simp_all add: get_edge_data_drop_wait regular_edges_drop_wait split: sum.splits)

lemma dict_edges_keys:
  "fst ` set (dict_edges v ds vals) = edge_name ` set ds \<union> fst ` set vals"
  by (induction ds arbitrary: vals) (auto simp: AList.dom_update)

lemma dict_parents_keys:
  "dict_parents g n ps vals = Inr vals' \<Longrightarrow>
     fst ` set vals' = (\<Union>p\<in>set ps. edge_name ` set (get_edge_data g p n)) \<union> fst ` set vals"
  by (induction ps arbitrary: vals) (auto simp: dict_edges_keys split: sum.splits)

lemma parent_outputs_list_all2:
  "parent_outputs g ps = Inr vs \<longleftrightarrow>
     list_all2 (\<lambda>p v. get_node_value g p ''output'' = Inr v) ps vs"
proof (induction ps arbitrary: vs)
  case Nil
  then show ?case by auto
next
  case (Cons p ps)
  show ?case
  proof (cases "get_node_value g p ''output''")
    case (Inl e)
    then show ?thesis by (auto simp: list_all2_Cons1)
  next
    case (Inr v)
    then show ?thesis using Cons.IH
      by (cases "parent_outputs g ps") (auto simp: list_all2_Cons1)
  qed
qed

text \<open>
  Claim C4, as stated: wait-only edges contribute no entry in any branch, and the
  dict-collection mapping ranges over non-wait edges only. The dict-collection branch
  does not look at \<open>param_type\<close>: in \<open>wait_graph\<close> read as a dict-collection node, the
  wait-only edge from node 2 puts its \<open>edge_name\<close> and the output of node 2 into the
  collected mapping.
\<close>

theorem dict_collection_keeps_wait_edge:
  "get_edge_data wait_graph 2 1 = [\<lparr>param_type = ''wait_only'', edge_name = ''!waiting_edge''\<rparr>] \<and>
   get_task_inputs 1 '':electron_dict:'' wait_graph =
     Inr \<lparr>args = [],
          kwargs = [(''x'', TransportableObject
                      (PyDict [(''a'', PyInt 5), (''!waiting_edge'', PyInt 7)]))]\<rparr>"
  by (simp add: get_task_inputs_def get_edge_data_def get_dependencies_def get_node_value_def
      wait_graph_def startswith_def electron_list_prefix_def electron_dict_prefix_def)

text \<open>
  Claim C4, amended. Outside the two collection branches, removing every wait-only edge
  record leaves the assembled inputs unchanged: a wait-only edge contributes no entry
  to \<open>args\<close> or \<open>kwargs\<close>. In a collection branch \<open>args\<close> is empty and \<open>kwargs\<close> has
  the single key \<open>x\<close>, so no edge adds an entry of its own there; the mapping collected
  by the dict-collection branch has a key for the \<open>edge_name\<close> of every edge of every
  parent, whatever its \<open>param_type\<close>.
\<close>

theorem wait_edges_in_task_inputs:
  "(\<not> startswith node_name electron_list_prefix \<and> \<not> startswith node_name electron_dict_prefix \<longrightarrow>
      get_task_inputs n node_name (drop_wait_edges g) = get_task_inputs n node_name g) \<and>
   ((startswith node_name electron_list_prefix \<or> startswith node_name electron_dict_prefix) \<and>
      get_task_inputs n node_name g = Inr ti \<longrightarrow>
      args ti = [] \<and> map fst (kwargs ti) = [''x'']) \<and>
   (\<not> startswith node_name electron_list_prefix \<and> startswith node_name electron_dict_prefix \<and>
      get_task_inputs n node_name g = Inr ti \<longrightarrow>
      (\<exists>vals. kwargs ti = [(''x'', TransportableObject (PyDict vals))] \<and>
         fst ` set vals = (\<Union>p\<in>set (get_dependencies g n). edge_name ` set (get_edge_data g p n))))"
proof (intro conjI impI)
  assume "\<not> startswith node_name electron_list_prefix \<and> \<not> startswith node_name electron_dict_prefix"
  then show "get_task_inputs n node_name (drop_wait_edges g) = get_task_inputs n node_name g"
    by (simp add: get_task_inputs_def regular_parents_drop_wait)
next
  assume a: "(startswith node_name electron_list_prefix \<or> startswith node_name electron_dict_prefix) \<and>
    get_task_inputs n node_name g = Inr ti"
  then show "args ti = []"
    by (auto simp: get_task_inputs_def split: if_splits sum.splits)
  from a show "map fst (kwargs ti) = [''x'']"
    by (auto simp: get_task_inputs_def split: if_splits sum.splits)
next
  assume a: "\<not> startswith node_name electron_list_prefix \<and> startswith node_name electron_dict_prefix \<and>
    get_task_inputs n node_name g = Inr ti"
  then obtain vals where v: "dict_parents g n (get_dependencies g n) [] = Inr vals"
    and ti: "ti = \<lparr>args = [], kwargs = [(''x'', make_transportable (PyDict vals))]\<rparr>"
    by (auto simp: get_task_inputs_def split: sum.splits)
  from dict_parents_keys[OF v] ti
  show "\<exists>vals. kwargs ti = [(''x'', TransportableObject (PyDict vals))] \<and>
         fst ` set vals = (\<Union>p\<in>set (get_dependencies g n). edge_name ` set (get_edge_data g p n))"
    by auto
qed

theorem wait_edges_in_task_inputs_witness:
  "get_task_inputs 1 ''child'' (drop_wait_edges wait_graph) = get_task_inputs 1 ''child'' wait_graph \<and>
   get_task_inputs 1 ''child'' wait_graph = Inr \<lparr>args = [], kwargs = [(''a'', PyInt 5)]\<rparr> \<and>
   (\<exists>vals. kwargs \<lparr>args = [],
          kwargs = [(''x'', TransportableObject
                      (PyDict [(''a'', PyInt 5), (''!waiting_edge'', PyInt 7)]))]\<rparr>
        = [(''x'', TransportableObject (PyDict vals))] \<and>
      fst ` set vals =
        (\<Union>p\<in>set (get_dependencies wait_graph 1). edge_name ` set (get_edge_data wait_graph p 1)))"
proof -
  have r: "\<not> startswith ''child'' electron_list_prefix \<and> \<not> startswith ''child'' electron_dict_prefix"
    by (simp add: startswith_def electron_list_prefix_def electron_dict_prefix_def)
  have d: "\<not> startswith '':electron_dict:'' electron_list_prefix \<and>
           startswith '':electron_dict:'' electron_dict_prefix"
    by (simp add: startswith_def electron_list_prefix_def electron_dict_prefix_def)
  have v: "get_task_inputs 1 ''child'' wait_graph = Inr \<lparr>args = [], kwargs = [(''a'', PyInt 5)]\<rparr>"
    by (simp add: get_task_inputs_def get_edge_data_def get_dependencies_def get_node_value_def
        wait_graph_def startswith_def electron_list_prefix_def electron_dict_prefix_def)
  have e: "get_task_inputs 1 '':electron_dict:'' wait_graph =
     Inr \<lparr>args = [],
          kwargs = [(''x'', TransportableObject
                      (PyDict [(''a'', PyInt 5), (''!waiting_edge'', PyInt 7)]))]\<rparr>"
    by (simp add: get_task_inputs_def get_edge_data_def get_dependencies_def get_node_value_def
        wait_graph_def startswith_def electron_list_prefix_def electron_dict_prefix_def)
  note t1 = wait_edges_in_task_inputs[of "''child''" 1 wait_graph]
  note t2 = wait_edges_in_task_inputs[of "'':electron_dict:''" 1 wait_graph, OF ]
  from t1 r have a: "get_task_inputs 1 ''child'' (drop_wait_edges wait_graph) =
      get_task_inputs 1 ''child'' wait_graph"
    by blast
  from t2 d e show ?thesis using a v by blast
qed

text \<open>
  Claim C5, as stated: the parents' outputs are gathered in parent-id order. The list
  comprehension follows \<^verbatim>\<open>get_dependencies\<close> and sorts nothing: in \<open>unsorted_graph\<close>
  the dependencies of node 3 are listed as 2, 0, 1, the outputs in parent-id order are
  1, 2, 3, and the collected list is 3, 1, 2.
\<close>

theorem list_collection_not_in_id_order:
  "get_dependencies unsorted_graph 3 = [2, 0, 1] \<and>
   sort (get_dependencies unsorted_graph 3) = [0, 1, 2] \<and>
   parent_outputs unsorted_graph (sort (get_dependencies unsorted_graph 3)) =
     Inr [PyInt 1, PyInt 2, PyInt 3] \<and>
   get_task_inputs 3 '':electron_list:'' unsorted_graph =
     Inr \<lparr>args = [], kwargs = [(''x'', TransportableObject (PyList [PyInt 3, PyInt 1, PyInt 2]))]\<rparr>"
  by (simp add: get_task_inputs_def get_dependencies_def get_node_value_def unsorted_graph_def s2_graph_def
      startswith_def electron_list_prefix_def)

text \<open>
  Claim C5, amended: for a node whose name begins with the list-collection marker, input
  assembly yields empty \<open>args\<close> and the single keyword \<open>x\<close>, bound to one transportable
  that wraps the list of the parents' outputs, in the order in which
  \<^verbatim>\<open>get_dependencies\<close> lists the parents, whatever their ids.
\<close>

theorem list_collection_inputs:
  assumes "startswith node_name electron_list_prefix"
    and "list_all2 (\<lambda>p v. get_node_value g p ''output'' = Inr v) (get_dependencies g n) vals"
  shows "get_task_inputs n node_name g =
           Inr \<lparr>args = [], kwargs = [(''x'', TransportableObject (PyList vals))]\<rparr>"
  using assms by (simp add: get_task_inputs_def parent_outputs_list_all2[symmetric])

theorem list_collection_inputs_witness:
  "get_task_inputs 3 '':electron_list:'' s2_graph =
     Inr \<lparr>args = [], kwargs = [(''x'', TransportableObject (PyList [PyInt 1, PyInt 2, PyInt 3]))]\<rparr> \<and>
   get_task_inputs 3 '':electron_list:'' unsorted_graph =
     Inr \<lparr>args = [], kwargs = [(''x'', TransportableObject (PyList [PyInt 3, PyInt 1, PyInt 2]))]\<rparr>"
proof -
  have a: "startswith '':electron_list:'' electron_list_prefix"
    by (simp add: startswith_def electron_list_prefix_def)
  have b: "list_all2 (\<lambda>p v. get_node_value s2_graph p ''output'' = Inr v)
             (get_dependencies s2_graph 3) [PyInt 1, PyInt 2, PyInt 3]"
    by (simp add: get_dependencies_def get_node_value_def s2_graph_def)
  have c: "list_all2 (\<lambda>p v. get_node_value unsorted_graph p ''output'' = Inr v)
             (get_dependencies unsorted_graph 3) [PyInt 3, PyInt 1, PyInt 2]"
    by (simp add: get_dependencies_def get_node_value_def unsorted_graph_def s2_graph_def)
  from list_collection_inputs[OF a b] list_collection_inputs[OF a c] show ?thesis by simp
qed

section \<open>Task runner\<close>

text \<open>
  \<^verbatim>\<open>covalent_dispatcher/_core/execution.py\<close>, \<^verbatim>\<open>generate_node_result\<close> and \<^verbatim>\<open>_run_task\<close>.
  A node result is the dictionary \<^verbatim>\<open>generate_node_result\<close> builds; Python's \<^verbatim>\<open>None\<close> is
  \<open>None\<close> for the times, the status and the error, and \<open>PyNone\<close> for the values.
\<close>

record node_result =
  nr_node_id :: node_id
  nr_start_time :: "datetime option"
  nr_end_time :: "datetime option"
  nr_status :: "Status option"
  nr_output :: pyval
  nr_error :: "string option"
  nr_stdout :: pyval
  nr_stderr :: pyval
  nr_sublattice_result :: pyval

definition generate_node_result ::
  "node_id \<Rightarrow> datetime option \<Rightarrow> datetime option \<Rightarrow> Status option \<Rightarrow> pyval \<Rightarrow> string option \<Rightarrow>
   pyval \<Rightarrow> pyval \<Rightarrow> pyval \<Rightarrow> node_result"
where
  "generate_node_result nid start_time end_time status output error stdout stderr sublattice_result =
     \<lparr>nr_node_id = nid, nr_start_time = start_time, nr_end_time = end_time, nr_status = status,
      nr_output = output, nr_error = error, nr_stdout = stdout, nr_stderr = stderr,
      nr_sublattice_result = sublattice_result\<rparr>"

text \<open>The keyword arguments of one \<^verbatim>\<open>executor.execute\<close> call.\<close>

record exec_call =
  ec_function :: pyval
  ec_args :: "pyval list"
  ec_kwargs :: "(string \<times> pyval) list"
  ec_call_before :: "pyval list"
  ec_call_after :: "pyval list"
  ec_dispatch_id :: string
  ec_results_dir :: string
  ec_node_id :: node_id

text \<open>
  The collaborators of the task runner that are not part of the dispatcher, as
  parameters: the executor manager and the executors (\<open>get_executor\<close>, \<open>from_dict\<close>,
  \<open>execute\<close>, each raising or returning), the \<^verbatim>\<open>json\<close> attribute of a transportable and
  \<^verbatim>\<open>json.loads\<close>, the process-wide registry \<^verbatim>\<open>futures\<close> of the entry point
  (\<open>None\<close>: no such key; otherwise what \<^verbatim>\<open>.result()\<close> raises or returns), and the
  rendering of a traceback. The scheduler's collaborators are here too: \<open>clock n\<close> is
  the \<open>n\<close>-th reading of \<^verbatim>\<open>datetime.now\<close> in a dispatch; \<open>getitem\<close> and \<open>getattr\<close> are
  Python's \<^verbatim>\<open>obj[key]\<close> and \<^verbatim>\<open>getattr(obj, name)\<close>; \<open>deps_apply kind d\<close> rebuilds a
  dependency of the given kind (\<open>bash\<close>, \<open>pip\<close>, \<open>call\<close>) from its dictionary and applies
  it; \<open>host_str\<close> is \<^verbatim>\<open>str\<close> on objects other than strings; \<open>lattice_value\<close> and
  \<open>all_node_outputs\<close> are the lattice and \<^verbatim>\<open>get_all_node_outputs()\<close> as Python values;
  \<open>deserialize_from_json\<close> is \<^verbatim>\<open>Lattice.deserialize_from_json\<close>; \<open>callback_done n\<close>
  says whether the pool has run the completion callback of the job of node \<open>n\<close> by the
  time \<^verbatim>\<open>wait\<close> returns; \<open>with_error\<close> is the exception the interpreter raises for a
  \<^verbatim>\<open>with\<close> statement on an object whose class has no \<^verbatim>\<open>__enter__\<close>: an
  \<^verbatim>\<open>AttributeError\<close> before version 3.11 of the language, a \<^verbatim>\<open>TypeError\<close> from it on.
  For the serialization, \<open>host_isoformat\<close> is
  \<^verbatim>\<open>datetime.isoformat\<close>, \<open>vars_of\<close> and \<open>class_name\<close> are \<^verbatim>\<open>obj.__dict__\<close> and
  \<^verbatim>\<open>obj.__class__.__name__\<close>, and \<open>doc_of f\<close> is \<^verbatim>\<open>f.get_deserialized().__doc__\<close>.
\<close>

record host =
  get_executor :: "pyval \<Rightarrow> exn + pyval"
  from_dict :: "pyval \<Rightarrow> pyval \<Rightarrow> exn + pyval"
  execute :: "pyval \<Rightarrow> exec_call \<Rightarrow> exn + (pyval \<times> pyval \<times> pyval)"
  json_attr :: "pyval \<Rightarrow> exn + string"
  json_loads :: "string \<Rightarrow> exn + pyval"
  futures :: "pyval \<Rightarrow> (exn + pyval) option"
  format_exception :: "exn \<Rightarrow> string"
  clock :: "nat \<Rightarrow> datetime"
  getitem :: "pyval \<Rightarrow> pyval \<Rightarrow> exn + pyval"
  getattr :: "pyval \<Rightarrow> pyval \<Rightarrow> exn + pyval"
  deps_apply :: "string \<Rightarrow> pyval \<Rightarrow> exn + pyval"
  host_str :: "pyval \<Rightarrow> string"
  lattice_value :: "Lattice \<Rightarrow> pyval"
  all_node_outputs :: "Result \<Rightarrow> pyval"
  deserialize_from_json :: "string \<Rightarrow> exn + Lattice"
  callback_done :: "node_id \<Rightarrow> bool"
  with_error :: exn
  host_isoformat :: "datetime \<Rightarrow> string"
  vars_of :: "pyval \<Rightarrow> exn + pyval"
  class_name :: "pyval \<Rightarrow> string"
  doc_of :: "pyval \<Rightarrow> exn + pyval"

text \<open>Truth value of a Python object; \<^verbatim>\<open>Status.__bool__\<close> is false for \<^verbatim>\<open>NEW_OBJECT\<close> only.\<close>

fun truthy :: "pyval \<Rightarrow> bool" where
  "truthy PyNone = False"
| "truthy (PyBool b) = b"
| "truthy (PyInt i) = (i \<noteq> 0)"
| "truthy (PyFloat (Finite m e)) = (m \<noteq> 0)"
| "truthy (PyStr s) = (s \<noteq> [])"
| "truthy (PyList xs) = (xs \<noteq> [])"
| "truthy (PyDict kvs) = (kvs \<noteq> [])"
| "truthy (PyStatus s) = (STATUS s \<noteq> ''NEW_OBJECT'')"
| "truthy v = True"

text \<open>The attributes \<^verbatim>\<open>encoded_result\<close> and \<^verbatim>\<open>status\<close>, which only a \<^verbatim>\<open>Result\<close> has.\<close>

fun encoded_result :: "pyval \<Rightarrow> exn + pyval" where
  "encoded_result (PyResult st enc) = Inr enc"
| "encoded_result v = Inl (AttributeError ''encoded_result'')"

fun result_status :: "pyval \<Rightarrow> exn + Status" where
  "result_status (PyResult st enc) = Inr st"
| "result_status v = Inl (AttributeError ''status'')"

text \<open>
  The first \<^verbatim>\<open>try\<close> block of \<^verbatim>\<open>_run_task\<close>: the handler logs and raises the exception
  again, so the block is the value of its body.
\<close>

definition resolve_executor :: "host \<Rightarrow> pyval \<times> pyval \<Rightarrow> exn + pyval" where
  "resolve_executor env selected_executor =
     (case selected_executor of (short_name, object_dict) \<Rightarrow>
        (case get_executor env short_name of
           Inl ex \<Rightarrow> Inl ex
         | Inr executor \<Rightarrow> from_dict env executor object_dict))"

text \<open>
  The sublattice branch after \<^verbatim>\<open>fut.result()\<close> has returned the node result of the
  sub-dispatch job: the sub-dispatch id is read from its output, the sub-dispatch's
  \<^verbatim>\<open>Result\<close> is awaited from the registry, and the node result is packaged.
\<close>

definition await_sublattice :: "host \<Rightarrow> datetime \<Rightarrow> node_id \<Rightarrow> node_result \<Rightarrow> exn + node_result" where
  "await_sublattice env now nid fut_result =
     (case json_attr env (nr_output fut_result) of
        Inl ex \<Rightarrow> Inl ex
      | Inr js \<Rightarrow>
     (case json_loads env js of
        Inl ex \<Rightarrow> Inl ex
      | Inr sub_dispatch_id \<Rightarrow>
     (case futures env sub_dispatch_id of
        None \<Rightarrow> Inl (KeyError ''sub_dispatch_id'')
      | Some (Inl ex) \<Rightarrow> Inl ex
      | Some (Inr sublattice_result) \<Rightarrow>
          if \<not> truthy sublattice_result then Inl (RuntimeError ''Sublattice execution failed'')
          else
            (case encoded_result sublattice_result of
               Inl ex \<Rightarrow> Inl ex
             | Inr output \<Rightarrow>
                 (let node_result =
                        generate_node_result nid None (Some now) (Some COMPLETED) output None
                          PyNone PyNone sublattice_result
                  in case result_status sublattice_result of
                       Inl ex \<Rightarrow> Inl ex
                     | Inr st \<Rightarrow>
                         if st \<noteq> COMPLETED
                         then Inr (node_result\<lparr>nr_status := Some FAILED,
                                nr_error := Some ''Sublattice workflow failed to complete''\<rparr>)
                         else Inr node_result)))))"

text \<open>The branch of a task that is not a sublattice: one \<^verbatim>\<open>executor.execute\<close> call.\<close>

definition execute_task ::
  "host \<Rightarrow> datetime \<Rightarrow> pyval \<Rightarrow> node_id \<Rightarrow> string \<Rightarrow> string \<Rightarrow> task_input \<Rightarrow> pyval \<Rightarrow>
   pyval list \<Rightarrow> pyval list \<Rightarrow> exn + node_result"
where
  "execute_task env now executor nid dispatch_id results_dir inputs serialized_callable
     call_before call_after =
     (case execute env executor
             \<lparr>ec_function = serialized_callable, ec_args = args inputs, ec_kwargs = kwargs inputs,
              ec_call_before = call_before, ec_call_after = call_after,
              ec_dispatch_id = dispatch_id, ec_results_dir = results_dir, ec_node_id = nid\<rparr> of
        Inl ex \<Rightarrow> Inl ex
      | Inr (output, stdout, stderr) \<Rightarrow>
          Inr (generate_node_result nid None (Some now) (Some COMPLETED) output None
                 stdout stderr PyNone))"

text \<open>
  \<^verbatim>\<open>_run_task\<close>. \<open>now\<close> is the reading of the clock when the task ends. The job that
  dispatches a sublattice is \<^verbatim>\<open>_run_task\<close> itself, submitted to the pool under the name
  \<^verbatim>\<open>dispatch_sublattice\<close> and awaited at once; \<open>Inl\<close> is an exception that leaves
  \<^verbatim>\<open>_run_task\<close>. A wait that never ends, as on a pool with no free worker, has no
  value here: nothing below says that \<^verbatim>\<open>_run_task\<close> returns.
\<close>

function run_task ::
  "host \<Rightarrow> datetime \<Rightarrow> node_id \<Rightarrow> string \<Rightarrow> string \<Rightarrow> task_input \<Rightarrow> pyval \<Rightarrow> (pyval \<times> pyval) \<Rightarrow>
   pyval list \<Rightarrow> pyval list \<Rightarrow> string \<Rightarrow> (pyval \<times> pyval) \<Rightarrow> exn + node_result"
where
  "run_task env now nid dispatch_id results_dir inputs serialized_callable selected_executor
     call_before call_after node_name workflow_executor =
     (case resolve_executor env selected_executor of
        Inl ex \<Rightarrow> Inl ex
      | Inr executor \<Rightarrow>
          (case
             (if startswith node_name sublattice_prefix then
                (if fst workflow_executor = PyStr ''client''
                 then Inl (RuntimeError ''No executor selected for dispatching sublattices'')
                 else
                   (case run_task env now (- 1) dispatch_id results_dir
                           \<lparr>args = serialized_callable # args inputs, kwargs = kwargs inputs\<rparr>
                           (make_transportable (PyFunction ''_dispatch''))
                           workflow_executor [] [] ''dispatch_sublattice'' workflow_executor of
                      Inl ex \<Rightarrow> Inl ex
                    | Inr fut_result \<Rightarrow> await_sublattice env now nid fut_result))
              else
                execute_task env now executor nid dispatch_id results_dir inputs
                  serialized_callable call_before call_after)
           of
             Inl ex \<Rightarrow>
               Inr (generate_node_result nid None (Some now) (Some FAILED) PyNone
                      (Some (format_exception env ex)) PyNone PyNone PyNone)
           | Inr node_result \<Rightarrow> Inr node_result))"
  by pat_completeness auto
termination
  by (relation "measure (\<lambda>(env, now, nid, dispatch_id, results_dir, inputs, serialized_callable,
        selected_executor, call_before, call_after, node_name, workflow_executor).
        if startswith node_name sublattice_prefix then 1 else 0)")
     (auto simp: startswith_def sublattice_prefix_def)

declare run_task.simps [simp del]

subsection \<open>Example hosts\<close>

text \<open>
  A host with one executor, \<open>local\<close>. Its \<open>execute\<close> runs the dispatch job of a
  sublattice, returning the sub-dispatch id \<open>sub-1\<close>, and raises in every other task;
  the registry holds a \<^verbatim>\<open>Result\<close> with status \<^verbatim>\<open>FAILED\<close> for \<open>sub-1\<close>. The clock counts
  its readings.
\<close>

definition plain_host :: host where
  "plain_host =
     \<lparr>get_executor = (\<lambda>short_name.
        if short_name = PyStr ''local'' then Inr (PyObject 1) else Inl (KeyError ''executor'')),
      from_dict = (\<lambda>executor object_dict. Inr executor),
      execute = (\<lambda>executor call.
        if ec_function call = TransportableObject (PyFunction ''_dispatch'')
        then Inr (TransportableObject (PyStr ''sub-1''), PyStr [], PyStr [])
        else Inl (OtherException ''ZeroDivisionError'')),
      json_attr = (\<lambda>v. Inr ''sub-1''),
      json_loads = (\<lambda>s. Inr (PyStr s)),
      futures = (\<lambda>k. if k = PyStr ''sub-1'' then Some (Inr (PyResult FAILED PyNone)) else None),
      format_exception = (\<lambda>ex. ''Traceback (most recent call last)''),
      clock = (\<lambda>n. n),
      getitem = (\<lambda>obj k. Inl TypeError),
      getattr = (\<lambda>obj a. Inl (AttributeError ''attribute'')),
      deps_apply = (\<lambda>kind d. Inr d),
      host_str = (\<lambda>v. ''object''),
      lattice_value = (\<lambda>l. PyObject 0),
      all_node_outputs = (\<lambda>r. PyDict []),
      deserialize_from_json = (\<lambda>s. Inl (OtherException ''JSONDecodeError'')),
      callback_done = (\<lambda>n. True),
      with_error = AttributeError ''__enter__'',
      host_isoformat = (\<lambda>d. ''1970-01-01T00:00:00''),
      vars_of = (\<lambda>obj. Inr (PyDict [(''cache_dir'', PyStr ''/tmp'')])),
      class_name = (\<lambda>obj. ''Executor''),
      doc_of = (\<lambda>f. Inr PyNone)\<rparr>"

text \<open>The same host, with a registry whose sub-dispatch completes with the value 5.\<close>

definition completing_host :: host where
  "completing_host =
     plain_host\<lparr>futures := (\<lambda>k. if k = PyStr ''sub-1''
        then Some (Inr (PyResult COMPLETED (TransportableObject (PyInt 5)))) else None)\<rparr>"

subsection \<open>Properties of the task runner\<close>

lemma dispatch_job_plain:
  "run_task plain_host 7 (- 1) ''d'' ''/tmp''
     \<lparr>args = PyFunction ''inner'' # args \<lparr>args = [], kwargs = []\<rparr>,
      kwargs = kwargs \<lparr>args = [], kwargs = []\<rparr>\<rparr>
     (make_transportable (PyFunction ''_dispatch''))
     (PyStr ''local'', PyDict []) [] [] ''dispatch_sublattice'' (PyStr ''local'', PyDict [])
   = Inr (generate_node_result (- 1) None (Some 7) (Some COMPLETED)
            (TransportableObject (PyStr ''sub-1'')) None (PyStr []) (PyStr []) PyNone)"
  by (simp add: run_task.simps resolve_executor_def execute_task_def plain_host_def
      startswith_def sublattice_prefix_def)

lemma dispatch_job_completing:
  "run_task completing_host 7 (- 1) ''d'' ''/tmp''
     \<lparr>args = PyFunction ''inner'' # args \<lparr>args = [], kwargs = []\<rparr>,
      kwargs = kwargs \<lparr>args = [], kwargs = []\<rparr>\<rparr>
     (make_transportable (PyFunction ''_dispatch''))
     (PyStr ''local'', PyDict []) [] [] ''dispatch_sublattice'' (PyStr ''local'', PyDict [])
   = Inr (generate_node_result (- 1) None (Some 7) (Some COMPLETED)
            (TransportableObject (PyStr ''sub-1'')) None (PyStr []) (PyStr []) PyNone)"
  by (simp add: run_task.simps resolve_executor_def execute_task_def plain_host_def
      completing_host_def startswith_def sublattice_prefix_def)

text \<open>
  Claim C2, as stated: when resolving the selected executor raises, the task runner
  returns a node result with status \<^verbatim>\<open>FAILED\<close>. Here no executor is registered under
  the short name \<open>missing\<close>: the handler of the first \<^verbatim>\<open>try\<close> block raises the
  exception again and \<^verbatim>\<open>_run_task\<close> returns no node result.
\<close>

theorem executor_resolution_raises:
  "run_task plain_host 7 0 ''d'' ''/tmp'' \<lparr>args = [], kwargs = []\<rparr> (PyFunction ''f'')
     (PyStr ''missing'', PyDict []) [] [] ''task'' (PyStr ''local'', PyDict [])
   = Inl (KeyError ''executor'')"
  by (simp add: run_task.simps resolve_executor_def plain_host_def)

text \<open>
  Claim C2, amended. An exception raised while the selected executor is resolved (by
  the lookup of the short name or by applying the configuration dictionary) is logged
  and raised again: it leaves \<^verbatim>\<open>_run_task\<close> and reaches its caller, and no node result
  is returned. It is an exception raised by \<^verbatim>\<open>executor.execute\<close>, once the executor is
  resolved, that gives a node result with status \<^verbatim>\<open>FAILED\<close>, the end time set and the
  rendered traceback in its error field.
\<close>

theorem executor_resolution_failure_propagates:
  "(resolve_executor env selected_executor = Inl ex \<longrightarrow>
      run_task env now nid dispatch_id results_dir inputs serialized_callable selected_executor
        call_before call_after node_name workflow_executor = Inl ex) \<and>
   (resolve_executor env selected_executor = Inr executor \<and>
    \<not> startswith node_name sublattice_prefix \<and>
    execute env executor
      \<lparr>ec_function = serialized_callable, ec_args = args inputs, ec_kwargs = kwargs inputs,
       ec_call_before = call_before, ec_call_after = call_after,
       ec_dispatch_id = dispatch_id, ec_results_dir = results_dir, ec_node_id = nid\<rparr> = Inl ex \<longrightarrow>
      run_task env now nid dispatch_id results_dir inputs serialized_callable selected_executor
        call_before call_after node_name workflow_executor =
      Inr (generate_node_result nid None (Some now) (Some FAILED) PyNone
             (Some (format_exception env ex)) PyNone PyNone PyNone))"
  by (subst run_task.simps, subst run_task.simps)
     (simp add: execute_task_def split: sum.splits)

theorem executor_resolution_failure_propagates_witness:
  "run_task plain_host 7 0 ''d'' ''/tmp'' \<lparr>args = [], kwargs = []\<rparr> (PyFunction ''f'')
     (PyStr ''missing'', PyDict []) [] [] ''task'' (PyStr ''local'', PyDict [])
     = Inl (KeyError ''executor'') \<and>
   run_task plain_host 7 0 ''d'' ''/tmp'' \<lparr>args = [], kwargs = []\<rparr> (PyFunction ''f'')
     (PyStr ''local'', PyDict []) [] [] ''task'' (PyStr ''local'', PyDict [])
     = Inr (generate_node_result 0 None (Some 7) (Some FAILED) PyNone
             (Some ''Traceback (most recent call last)'') PyNone PyNone PyNone)"
proof -
  have a: "resolve_executor plain_host (PyStr ''missing'', PyDict []) = Inl (KeyError ''executor'')"
    by (simp add: resolve_executor_def plain_host_def)
  have b: "resolve_executor plain_host (PyStr ''local'', PyDict []) = Inr (PyObject 1)"
    by (simp add: resolve_executor_def plain_host_def)
  have c: "\<not> startswith ''task'' sublattice_prefix"
    by (simp add: startswith_def sublattice_prefix_def)
  have d: "execute plain_host (PyObject 1)
      \<lparr>ec_function = PyFunction ''f'', ec_args = args \<lparr>args = [], kwargs = []\<rparr>,
       ec_kwargs = kwargs \<lparr>args = [], kwargs = []\<rparr>,
       ec_call_before = [], ec_call_after = [],
       ec_dispatch_id = ''d'', ec_results_dir = ''/tmp'', ec_node_id = 0\<rparr>
      = Inl (OtherException ''ZeroDivisionError'')"
    by (simp add: plain_host_def)
  have e: "format_exception plain_host (OtherException ''ZeroDivisionError'') =
             ''Traceback (most recent call last)''"
    by (simp add: plain_host_def)
  from executor_resolution_failure_propagates[where env = plain_host
      and selected_executor = "(PyStr ''missing'', PyDict [])" and ex = "KeyError ''executor''"] a
  have 1: "run_task plain_host 7 0 ''d'' ''/tmp'' \<lparr>args = [], kwargs = []\<rparr> (PyFunction ''f'')
     (PyStr ''missing'', PyDict []) [] [] ''task'' (PyStr ''local'', PyDict [])
     = Inl (KeyError ''executor'')"
    by blast
  from executor_resolution_failure_propagates[where env = plain_host
      and selected_executor = "(PyStr ''local'', PyDict [])"
      and ex = "OtherException ''ZeroDivisionError''" and executor = "PyObject 1"
      and node_name = "''task''" and serialized_callable = "PyFunction ''f''"
      and inputs = "\<lparr>args = [], kwargs = []\<rparr>" and call_before = "[]" and call_after = "[]"
      and dispatch_id = "''d''" and results_dir = "''/tmp''" and nid = 0 and now = 7
      and workflow_executor = "(PyStr ''local'', PyDict [])"] b c d e
  have 2: "run_task plain_host 7 0 ''d'' ''/tmp'' \<lparr>args = [], kwargs = []\<rparr> (PyFunction ''f'')
     (PyStr ''local'', PyDict []) [] [] ''task'' (PyStr ''local'', PyDict [])
     = Inr (generate_node_result 0 None (Some 7) (Some FAILED) PyNone
             (Some ''Traceback (most recent call last)'') PyNone PyNone PyNone)"
    by simp
  from 1 2 show ?thesis by blast
qed

text \<open>
  Claim C3: for a sublattice node whose sub-dispatch job returned and whose sub-dispatch
  \<^verbatim>\<open>Result\<close> was awaited from the registry \<^verbatim>\<open>futures\<close>: when the status of that
  \<^verbatim>\<open>Result\<close> is not \<^verbatim>\<open>COMPLETED\<close> the node result has status \<^verbatim>\<open>FAILED\<close> and the error
  \<open>Sublattice workflow failed to complete\<close>; otherwise it has status \<^verbatim>\<open>COMPLETED\<close>.
  In both cases its output is the encoded final value of the sub-dispatch and its
  \<^verbatim>\<open>sublattice_result\<close> is the whole \<^verbatim>\<open>Result\<close>.
\<close>

theorem sublattice_node_result:
  assumes "resolve_executor env selected_executor = Inr executor"
    and "startswith node_name sublattice_prefix"
    and "fst workflow_executor \<noteq> PyStr ''client''"
    and "run_task env now (- 1) dispatch_id results_dir
           \<lparr>args = serialized_callable # args inputs, kwargs = kwargs inputs\<rparr>
           (make_transportable (PyFunction ''_dispatch''))
           workflow_executor [] [] ''dispatch_sublattice'' workflow_executor = Inr fut_result"
    and "json_attr env (nr_output fut_result) = Inr js"
    and "json_loads env js = Inr sub_dispatch_id"
    and "futures env sub_dispatch_id = Some (Inr (PyResult st enc))"
  shows "run_task env now nid dispatch_id results_dir inputs serialized_callable selected_executor
           call_before call_after node_name workflow_executor =
         Inr (if st \<noteq> COMPLETED
              then \<lparr>nr_node_id = nid, nr_start_time = None, nr_end_time = Some now,
                    nr_status = Some FAILED, nr_output = enc,
                    nr_error = Some ''Sublattice workflow failed to complete'',
                    nr_stdout = PyNone, nr_stderr = PyNone,
                    nr_sublattice_result = PyResult st enc\<rparr>
              else \<lparr>nr_node_id = nid, nr_start_time = None, nr_end_time = Some now,
                    nr_status = Some COMPLETED, nr_output = enc, nr_error = None,
                    nr_stdout = PyNone, nr_stderr = PyNone,
                    nr_sublattice_result = PyResult st enc\<rparr>)"
  using assms
  by (subst run_task.simps) (simp add: await_sublattice_def generate_node_result_def)

theorem sublattice_node_result_witness:
  "run_task plain_host 7 4 ''d'' ''/tmp'' \<lparr>args = [], kwargs = []\<rparr> (PyFunction ''inner'')
     (PyStr ''local'', PyDict []) [] [] '':sublattice:inner'' (PyStr ''local'', PyDict [])
   = Inr \<lparr>nr_node_id = 4, nr_start_time = None, nr_end_time = Some 7,
          nr_status = Some FAILED, nr_output = PyNone,
          nr_error = Some ''Sublattice workflow failed to complete'',
          nr_stdout = PyNone, nr_stderr = PyNone,
          nr_sublattice_result = PyResult FAILED PyNone\<rparr> \<and>
   run_task completing_host 7 4 ''d'' ''/tmp'' \<lparr>args = [], kwargs = []\<rparr> (PyFunction ''inner'')
     (PyStr ''local'', PyDict []) [] [] '':sublattice:inner'' (PyStr ''local'', PyDict [])
   = Inr \<lparr>nr_node_id = 4, nr_start_time = None, nr_end_time = Some 7,
          nr_status = Some COMPLETED, nr_output = TransportableObject (PyInt 5),
          nr_error = None, nr_stdout = PyNone, nr_stderr = PyNone,
          nr_sublattice_result = PyResult COMPLETED (TransportableObject (PyInt 5))\<rparr>"
proof -
  have r1: "resolve_executor plain_host (PyStr ''local'', PyDict []) = Inr (PyObject 1)"
    and r2: "resolve_executor completing_host (PyStr ''local'', PyDict []) = Inr (PyObject 1)"
    by (simp_all add: resolve_executor_def plain_host_def completing_host_def)
  have n: "startswith '':sublattice:inner'' sublattice_prefix"
    by (simp add: startswith_def sublattice_prefix_def)
  have w: "fst (PyStr ''local'', PyDict []) \<noteq> PyStr ''client''"
    by simp
  have j1: "json_attr plain_host
              (nr_output (generate_node_result (- 1) None (Some 7) (Some COMPLETED)
                 (TransportableObject (PyStr ''sub-1'')) None (PyStr []) (PyStr []) PyNone))
            = Inr ''sub-1''"
    and j2: "json_attr completing_host
              (nr_output (generate_node_result (- 1) None (Some 7) (Some COMPLETED)
                 (TransportableObject (PyStr ''sub-1'')) None (PyStr []) (PyStr []) PyNone))
            = Inr ''sub-1''"
    by (simp_all add: plain_host_def completing_host_def)
  have l1: "json_loads plain_host ''sub-1'' = Inr (PyStr ''sub-1'')"
    and l2: "json_loads completing_host ''sub-1'' = Inr (PyStr ''sub-1'')"
    by (simp_all add: plain_host_def completing_host_def)
  have f1: "futures plain_host (PyStr ''sub-1'') = Some (Inr (PyResult FAILED PyNone))"
    and f2: "futures completing_host (PyStr ''sub-1'') =
               Some (Inr (PyResult COMPLETED (TransportableObject (PyInt 5))))"
    by (simp_all add: plain_host_def completing_host_def)
  have s: "FAILED \<noteq> COMPLETED"
    by (simp add: FAILED_def COMPLETED_def)
  from sublattice_node_result[OF r1 n w dispatch_job_plain j1 l1 f1, of 4 "[]" "[]"] s
       sublattice_node_result[OF r2 n w dispatch_job_completing j2 l2 f2, of 4 "[]" "[]"]
  show ?thesis by simp
qed

section \<open>Dispatch store session\<close>

text \<open>
  \<^verbatim>\<open>covalent/_data_store/datastore.py\<close>. An upload is queued as
  \<^verbatim>\<open>(data, storage_type, storage_path, file_name)\<close>, a delete as
  \<^verbatim>\<open>(storage_type, storage_path, file_name)\<close>.
\<close>

type_synonym upload_args = "string \<times> string \<times> string \<times> string"
type_synonym delete_args = "string \<times> string \<times> string"

text \<open>
  \<^verbatim>\<open>DataStoreSession\<close>; \<open>db_session\<close> is the SQL session, by the statements issued in
  its transaction.
\<close>

record DataStoreSession =
  db_session :: "string list"
  pending_uploads :: "upload_args list"
  pending_deletes :: "delete_args list"

definition DataStoreSession_init :: "string list \<Rightarrow> DataStoreSession" where
  "DataStoreSession_init session =
     \<lparr>db_session = session, pending_uploads = [], pending_deletes = []\<rparr>"

definition queue_upload :: "DataStoreSession \<Rightarrow> string \<Rightarrow> string \<Rightarrow> string \<Rightarrow> string \<Rightarrow> DataStoreSession" where
  "queue_upload s data storage_type storage_path file_name =
     s\<lparr>pending_uploads := pending_uploads s @ [(data, storage_type, storage_path, file_name)]\<rparr>"

definition queue_delete :: "DataStoreSession \<Rightarrow> string \<Rightarrow> string \<Rightarrow> string \<Rightarrow> DataStoreSession" where
  "queue_delete s storage_type storage_path file_name =
     s\<lparr>pending_deletes := pending_deletes s @ [(storage_type, storage_path, file_name)]\<rparr>"

text \<open>
  A \<^verbatim>\<open>WorkflowDB\<close> object, by the methods \<^verbatim>\<open>begin_session\<close> calls on it: \<open>upload_file\<close>
  and \<open>delete_file\<close> are looked up on \<^verbatim>\<open>self\<close>, so a subclass may override them;
  \<open>session_commit\<close> and \<open>session_rollback\<close> are the SQL session's. Each returns
  \<open>None\<close> or the exception it raises.
\<close>

record WorkflowDB =
  upload_file :: "upload_args \<Rightarrow> exn option"
  delete_file :: "delete_args \<Rightarrow> exn option"
  session_commit :: "string list \<Rightarrow> exn option"
  session_rollback :: "exn option"

text \<open>
  The class \<^verbatim>\<open>WorkflowDB\<close> itself, which \<^verbatim>\<open>DevWorkflowDB\<close> inherits unchanged: both file
  methods raise \<^verbatim>\<open>NotImplementedError\<close>. The SQL session is one that works.
\<close>

definition WorkflowDB_base :: WorkflowDB where
  "WorkflowDB_base =
     \<lparr>upload_file = (\<lambda>a. Some NotImplementedError),
      delete_file = (\<lambda>a. Some NotImplementedError),
      session_commit = (\<lambda>stmts. None),
      session_rollback = None\<rparr>"

text \<open>What a use of the session did, in order; a file event is a call that returned.\<close>

datatype store_event =
    Begun
  | Committed
  | RolledBack
  | Uploaded upload_args
  | Deleted delete_args
  | Closed

fun drain_uploads :: "WorkflowDB \<Rightarrow> upload_args list \<Rightarrow> store_event list \<Rightarrow> exn option \<times> store_event list" where
  "drain_uploads db [] tr = (None, tr)"
| "drain_uploads db (arg # rest) tr =
     (case upload_file db arg of
        Some ex \<Rightarrow> (Some ex, tr)
      | None \<Rightarrow> drain_uploads db rest (tr @ [Uploaded arg]))"

fun drain_deletes :: "WorkflowDB \<Rightarrow> delete_args list \<Rightarrow> store_event list \<Rightarrow> exn option \<times> store_event list" where
  "drain_deletes db [] tr = (None, tr)"
| "drain_deletes db (arg # rest) tr =
     (case delete_file db arg of
        Some ex \<Rightarrow> (Some ex, tr)
      | None \<Rightarrow> drain_deletes db rest (tr @ [Deleted arg]))"

text \<open>
  The handler \<^verbatim>\<open>except Exception as ex: session.rollback(); raise ex\<close>, followed by the
  exit of \<^verbatim>\<open>with Session(...)\<close>, which closes the session.
\<close>

definition rollback_and_raise :: "WorkflowDB \<Rightarrow> exn \<Rightarrow> store_event list \<Rightarrow> exn option \<times> store_event list" where
  "rollback_and_raise db ex tr =
     (case session_rollback db of
        Some ex' \<Rightarrow> (Some ex', tr @ [Closed])
      | None \<Rightarrow> (Some ex, tr @ [RolledBack, Closed]))"

text \<open>
  \<^verbatim>\<open>WorkflowDB.begin_session\<close> around a \<^verbatim>\<open>with\<close> body. The body receives the fresh
  \<^verbatim>\<open>DataStoreSession\<close> and leaves it as it is when the body returns (\<open>None\<close>) or raises.
  The result is the exception that leaves the \<^verbatim>\<open>with\<close> statement, if any, and the events.
\<close>

definition begin_session ::
  "WorkflowDB \<Rightarrow> (DataStoreSession \<Rightarrow> exn option \<times> DataStoreSession) \<Rightarrow> exn option \<times> store_event list"
where
  "begin_session db body =
     (let ds_session = DataStoreSession_init [] in
      case body ds_session of
        (Some ex, ds') \<Rightarrow> rollback_and_raise db ex [Begun]
      | (None, ds') \<Rightarrow>
          (case session_commit db (db_session ds') of
             Some ex \<Rightarrow> rollback_and_raise db ex [Begun]
           | None \<Rightarrow>
               (case drain_uploads db (pending_uploads ds') [Begun, Committed] of
                  (Some ex, tr) \<Rightarrow> rollback_and_raise db ex tr
                | (None, tr) \<Rightarrow>
                    (case drain_deletes db (pending_deletes ds') tr of
                       (Some ex, tr') \<Rightarrow> rollback_and_raise db ex tr'
                     | (None, tr') \<Rightarrow> (None, tr' @ [Closed])))))"

subsection \<open>Example sessions\<close>

text \<open>A body that queues one upload and returns.\<close>

definition queue_one_upload :: "DataStoreSession \<Rightarrow> exn option \<times> DataStoreSession" where
  "queue_one_upload s = (None, queue_upload s ''bytes'' ''local'' ''/results'' ''result.pkl'')"

text \<open>
  A subclass that overrides both file methods with ones that return; a body that queues
  an upload, a delete and another upload; a body that queues an upload and then raises.
\<close>

definition FileDB :: WorkflowDB where
  "FileDB = WorkflowDB_base\<lparr>upload_file := (\<lambda>a. None), delete_file := (\<lambda>a. None)\<rparr>"

definition queue_three :: "DataStoreSession \<Rightarrow> exn option \<times> DataStoreSession" where
  "queue_three s =
     (None,
      queue_upload
        (queue_delete (queue_upload s ''b1'' ''local'' ''/results'' ''one.pkl'')
           ''local'' ''/results'' ''old.pkl'')
        ''b2'' ''local'' ''/results'' ''two.pkl'')"

definition queue_then_raise :: "DataStoreSession \<Rightarrow> exn option \<times> DataStoreSession" where
  "queue_then_raise s =
     (Some (OtherException ''IntegrityError''),
      queue_upload s ''bytes'' ''local'' ''/results'' ''result.pkl'')"

subsection \<open>Properties of the session\<close>

lemma drain_uploads_all:
  "\<forall>a\<in>set ups. upload_file db a = None \<Longrightarrow>
     drain_uploads db ups tr = (None, tr @ map Uploaded ups)"
  by (induction ups arbitrary: tr) simp_all

lemma drain_deletes_all:
  "\<forall>a\<in>set dels. delete_file db a = None \<Longrightarrow>
     drain_deletes db dels tr = (None, tr @ map Deleted dels)"
  by (induction dels arbitrary: tr) simp_all

lemma drain_uploads_stop:
  "\<forall>a\<in>set pre. upload_file db a = None \<Longrightarrow> upload_file db a = Some ex \<Longrightarrow>
     drain_uploads db (pre @ a # post) tr = (Some ex, tr @ map Uploaded pre)"
  by (induction pre arbitrary: tr) simp_all

lemma drain_deletes_stop:
  "\<forall>a\<in>set pre. delete_file db a = None \<Longrightarrow> delete_file db a = Some ex \<Longrightarrow>
     drain_deletes db (pre @ a # post) tr = (Some ex, tr @ map Deleted pre)"
  by (induction pre arbitrary: tr) simp_all

text \<open>
  Claim C6, as stated: when the body completes normally the transaction is committed,
  then every queued upload is performed, then every queued delete. In
  \<^verbatim>\<open>WorkflowDB\<close> as it is, \<^verbatim>\<open>upload_file\<close> raises \<^verbatim>\<open>NotImplementedError\<close>: a body that
  queues one upload and returns normally ends with the transaction committed, no upload
  performed, \<^verbatim>\<open>rollback\<close> called and the exception raised.
\<close>

theorem base_class_upload_not_performed:
  "queue_one_upload (DataStoreSession_init []) =
     (None, \<lparr>db_session = [], pending_uploads = [(''bytes'', ''local'', ''/results'', ''result.pkl'')],
             pending_deletes = []\<rparr>) \<and>
   begin_session WorkflowDB_base queue_one_upload =
     (Some NotImplementedError, [Begun, Committed, RolledBack, Closed])"
  by (simp add: begin_session_def queue_one_upload_def queue_upload_def DataStoreSession_init_def
      WorkflowDB_base_def rollback_and_raise_def)

text \<open>
  Claim C6, amended. When the body completes normally and \<^verbatim>\<open>commit\<close> and every
  \<^verbatim>\<open>upload_file\<close> and \<^verbatim>\<open>delete_file\<close> call return, the transaction is committed first,
  then every queued upload is performed in queue order, then every queued delete in
  queue order. When \<^verbatim>\<open>commit\<close> has returned and an \<^verbatim>\<open>upload_file\<close> call raises, the
  uploads queued before it have been performed, the other queue entries are skipped,
  \<^verbatim>\<open>rollback\<close> is called and the exception is raised again. When the body raises, the
  transaction is rolled back, the exception is raised again and no queued upload or
  delete is performed.
\<close>

theorem begin_session_protocol:
  "(body (DataStoreSession_init []) = (None, ds') \<and>
    session_commit db (db_session ds') = None \<and>
    (\<forall>a\<in>set (pending_uploads ds'). upload_file db a = None) \<and>
    (\<forall>a\<in>set (pending_deletes ds'). delete_file db a = None) \<longrightarrow>
      begin_session db body =
        (None, [Begun, Committed] @ map Uploaded (pending_uploads ds') @
               map Deleted (pending_deletes ds') @ [Closed])) \<and>
   (body (DataStoreSession_init []) = (None, ds') \<and>
    session_commit db (db_session ds') = None \<and>
    pending_uploads ds' = pre @ a # post \<and>
    (\<forall>a\<in>set pre. upload_file db a = None) \<and> upload_file db a = Some ex \<and>
    session_rollback db = None \<longrightarrow>
      begin_session db body = (Some ex, [Begun, Committed] @ map Uploaded pre @ [RolledBack, Closed])) \<and>
   (body (DataStoreSession_init []) = (Some ex, ds') \<and> session_rollback db = None \<longrightarrow>
      begin_session db body = (Some ex, [Begun, RolledBack, Closed]))"
  by (simp add: begin_session_def drain_uploads_all drain_deletes_all drain_uploads_stop
      rollback_and_raise_def)

theorem begin_session_protocol_witness:
  "begin_session FileDB queue_three =
     (None, [Begun, Committed,
             Uploaded (''b1'', ''local'', ''/results'', ''one.pkl''),
             Uploaded (''b2'', ''local'', ''/results'', ''two.pkl''),
             Deleted (''local'', ''/results'', ''old.pkl''), Closed]) \<and>
   begin_session WorkflowDB_base queue_three =
     (Some NotImplementedError, [Begun, Committed, RolledBack, Closed]) \<and>
   begin_session FileDB queue_then_raise =
     (Some (OtherException ''IntegrityError''), [Begun, RolledBack, Closed])"
proof -
  let ?ds = "\<lparr>db_session = [],
              pending_uploads = [(''b1'', ''local'', ''/results'', ''one.pkl''),
                                 (''b2'', ''local'', ''/results'', ''two.pkl'')],
              pending_deletes = [(''local'', ''/results'', ''old.pkl'')]\<rparr>"
  let ?dr = "\<lparr>db_session = [],
              pending_uploads = [(''bytes'', ''local'', ''/results'', ''result.pkl'')],
              pending_deletes = []\<rparr>"
  have b: "queue_three (DataStoreSession_init []) = (None, ?ds)"
    by (simp add: queue_three_def queue_upload_def queue_delete_def DataStoreSession_init_def)
  have r: "queue_then_raise (DataStoreSession_init []) = (Some (OtherException ''IntegrityError''), ?dr)"
    by (simp add: queue_then_raise_def queue_upload_def DataStoreSession_init_def)
  have ok: "session_commit FileDB (db_session ?ds) = None"
    "\<forall>a\<in>set (pending_uploads ?ds). upload_file FileDB a = None"
    "\<forall>a\<in>set (pending_deletes ?ds). delete_file FileDB a = None"
    "session_rollback FileDB = None"
    by (simp_all add: FileDB_def WorkflowDB_base_def)
  have base: "session_commit WorkflowDB_base (db_session ?ds) = None"
    "pending_uploads ?ds = [] @ (''b1'', ''local'', ''/results'', ''one.pkl'') #
        [(''b2'', ''local'', ''/results'', ''two.pkl'')]"
    "\<forall>a\<in>set []. upload_file WorkflowDB_base a = None"
    "upload_file WorkflowDB_base (''b1'', ''local'', ''/results'', ''one.pkl'') = Some NotImplementedError"
    "session_rollback WorkflowDB_base = None"
    by (simp_all add: WorkflowDB_base_def)
  from begin_session_protocol[of queue_three ?ds FileDB] b ok
  have 1: "begin_session FileDB queue_three =
     (None, [Begun, Committed] @ map Uploaded (pending_uploads ?ds) @
            map Deleted (pending_deletes ?ds) @ [Closed])"
    by blast
  from begin_session_protocol[of queue_three ?ds WorkflowDB_base "[]"
      "(''b1'', ''local'', ''/results'', ''one.pkl'')" "[(''b2'', ''local'', ''/results'', ''two.pkl'')]"
      NotImplementedError] b base
  have 2: "begin_session WorkflowDB_base queue_three =
     (Some NotImplementedError, [Begun, Committed] @ map Uploaded [] @ [RolledBack, Closed])"
    by blast
  from begin_session_protocol[where body = queue_then_raise and db = FileDB
      and ex = "OtherException ''IntegrityError''" and ds' = ?dr] r ok
  have 3: "begin_session FileDB queue_then_raise =
     (Some (OtherException ''IntegrityError''), [Begun, RolledBack, Closed])"
    by blast
  from 1 2 3 show ?thesis by simp
qed

section \<open>Serialization of a Result\<close>

text \<open>
  \<^verbatim>\<open>covalent_dispatcher/_db/dispatchdb.py\<close>, from \<^verbatim>\<open>extract_graph_node\<close> to
  \<^verbatim>\<open>encode_result\<close>.
\<close>

text \<open>
  \<^verbatim>\<open>str(obj)\<close>: a string is itself, \<^verbatim>\<open>None\<close> is \<open>None\<close>, a \<^verbatim>\<open>Status\<close> is its tag
  (\<^verbatim>\<open>Status.__str__\<close>), a boolean is \<open>True\<close> or \<open>False\<close>, a float that is not finite is
  \<open>nan\<close>, \<open>inf\<close> or \<open>-inf\<close>; for any other object the coercion is the parameter
  \<open>str_of\<close>.
\<close>

fun py_str :: "(pyval \<Rightarrow> string) \<Rightarrow> pyval \<Rightarrow> string" where
  "py_str str_of (PyStr s) = s"
| "py_str str_of PyNone = ''None''"
| "py_str str_of (PyStatus s) = STATUS s"
| "py_str str_of (PyBool b) = (if b then ''True'' else ''False'')"
| "py_str str_of (PyFloat NaN) = ''nan''"
| "py_str str_of (PyFloat Infinity) = ''inf''"
| "py_str str_of (PyFloat NegInfinity) = ''-inf''"
| "py_str str_of v = str_of v"



















subsection \<open>Example documents\<close>






subsection \<open>Properties of the serialization\<close>








section \<open>Wave scheduler\<close>

text \<open>
  \<^verbatim>\<open>covalent_dispatcher/_core/execution.py\<close>, \<^verbatim>\<open>_run_planned_workflow\<close>, \<^verbatim>\<open>_plan_workflow\<close>
  and \<^verbatim>\<open>run_workflow\<close>.

  The state of a dispatch: the \<^verbatim>\<open>Result\<close> object, which the scheduler mutates in place,
  the number of clock readings taken, and what the dispatch did to the world outside,
  in order. A future is the value of its job: what \<^verbatim>\<open>_run_task\<close> raises or returns.
\<close>

datatype event =
    Submitted node_id string
  | Saved
  | SentUpdate

record world =
  result_object :: Result
  ticks :: nat
  trace :: "event list"

fun is_submitted :: "event \<Rightarrow> bool" where
  "is_submitted (Submitted n name) = True"
| "is_submitted e = False"

definition submissions :: "world \<Rightarrow> event list" where
  "submissions w = filter is_submitted (trace w)"

text \<open>
  A step either raises, or returns a value; in both cases it leaves a state, since what
  was written to the \<^verbatim>\<open>Result\<close> before an exception stays written.
\<close>

type_synonym 'a run = "exn \<times> world + 'a \<times> world"

definition graph_of :: "world \<Rightarrow> TransportGraph" where
  "graph_of w = transport_graph (lattice (result_object w))"

definition set_graph :: "Result \<Rightarrow> TransportGraph \<Rightarrow> Result" where
  "set_graph r g = r\<lparr>lattice := (lattice r)\<lparr>transport_graph := g\<rparr>\<rparr>"

text \<open>\<^verbatim>\<open>datetime.now(timezone.utc)\<close>: the next reading of the clock.\<close>

definition now :: "host \<Rightarrow> world \<Rightarrow> datetime \<times> world" where
  "now env w = (clock env (ticks w), w\<lparr>ticks := Suc (ticks w)\<rparr>)"

text \<open>
  The statement \<^verbatim>\<open>with DispatchDB() as db: db.upsert(...)\<close>. The class \<^verbatim>\<open>DispatchDB\<close> of
  \<^verbatim>\<open>dispatchdb.py\<close> defines \<^verbatim>\<open>__init__\<close>, \<^verbatim>\<open>_get_data_store\<close> and \<^verbatim>\<open>save_db\<close> and nothing
  else: it has no \<^verbatim>\<open>__enter__\<close>, no \<^verbatim>\<open>__exit__\<close> and no \<^verbatim>\<open>upsert\<close>. So the statement
  raises before its body is entered, with the exception \<open>with_error\<close> of the host, and
  the state is left as it is.
\<close>

definition upsert :: "host \<Rightarrow> world \<Rightarrow> unit run" where
  "upsert env w = Inl (with_error env, w)"

text \<open>
  Modelled from the spec: \<^verbatim>\<open>Result.save\<close> and \<^verbatim>\<open>result_webhook.send_update\<close> are not
  among the source files. By the spec a failure to write or to deliver is logged and
  does not reach the scheduler: each of the two is an event that returns.
\<close>

definition save :: "world \<Rightarrow> world" where
  "save w = w\<lparr>trace := trace w @ [Saved]\<rparr>"

definition send_update :: "world \<Rightarrow> world" where
  "send_update w = w\<lparr>trace := trace w @ [SentUpdate]\<rparr>"

text \<open>
  The three statements that follow every change of the workflow's status: the
  \<^verbatim>\<open>with DispatchDB()\<close> statement, \<^verbatim>\<open>result_object.save()\<close> and
  \<^verbatim>\<open>result_webhook.send_update(result_object)\<close>.
\<close>

definition persist_and_notify :: "host \<Rightarrow> world \<Rightarrow> unit run" where
  "persist_and_notify env w =
     (case upsert env w of
        Inl (ex, w') \<Rightarrow> Inl (ex, w')
      | Inr (u, w') \<Rightarrow> Inr ((), send_update (save w')))"

text \<open>
  Modelled from the spec: \<^verbatim>\<open>Result._update_node\<close> is not among the source files; it
  merges a node result into the node's attributes: every field that is not \<^verbatim>\<open>None\<close>
  is written.
\<close>

fun set_attr :: "node_id \<Rightarrow> string \<Rightarrow> pyval \<Rightarrow> exn + TransportGraph \<Rightarrow> exn + TransportGraph" where
  "set_attr n k v (Inl ex) = Inl ex"
| "set_attr n k v (Inr g) = (if v = PyNone then Inr g else set_node_value g n k v)"

definition update_node :: "Result \<Rightarrow> node_result \<Rightarrow> exn + Result" where
  "update_node r nr =
     (let n = nr_node_id nr in
      case set_attr n ''sublattice_result'' (nr_sublattice_result nr)
          (set_attr n ''stderr'' (nr_stderr nr)
          (set_attr n ''stdout'' (nr_stdout nr)
          (set_attr n ''error'' (opt_str (nr_error nr))
          (set_attr n ''output'' (nr_output nr)
          (set_attr n ''status'' (opt_status (nr_status nr))
          (set_attr n ''end_time'' (opt_datetime (nr_end_time nr))
          (set_attr n ''start_time'' (opt_datetime (nr_start_time nr))
             (Inr (transport_graph (lattice r)))))))))) of
        Inl ex \<Rightarrow> Inl ex
      | Inr g \<Rightarrow> Inr (set_graph r g))"

text \<open>The closure \<^verbatim>\<open>update_node_result\<close> of \<^verbatim>\<open>_run_planned_workflow\<close>.\<close>

definition update_node_result :: "host \<Rightarrow> world \<Rightarrow> node_result \<Rightarrow> unit run" where
  "update_node_result env w node_result =
     (case update_node (result_object w) node_result of
        Inl ex \<Rightarrow> Inl (ex, w)
      | Inr r \<Rightarrow> persist_and_notify env (w\<lparr>result_object := r\<rparr>))"

text \<open>
  The closure \<^verbatim>\<open>task_callback\<close>, run by the pool when a job is done. The pool logs an
  exception of a callback and goes on: when the job raised, \<^verbatim>\<open>future.result()\<close> raises in
  the callback and the node is left as it was; when \<^verbatim>\<open>update_node_result\<close> raises, what
  it wrote before stays written.
\<close>

definition task_callback :: "host \<Rightarrow> world \<Rightarrow> exn + node_result \<Rightarrow> world" where
  "task_callback env w future =
     (case future of
        Inl ex \<Rightarrow> w
      | Inr node_result \<Rightarrow>
          (case update_node_result env w node_result of Inl (ex, w') \<Rightarrow> w' | Inr (u, w') \<Rightarrow> w'))"

text \<open>
  \<^verbatim>\<open>wait(futures)\<close> returns when every job of the wave is done. A future wakes its
  waiters before it runs its callbacks, so a callback may not have run yet when the
  scheduler goes on: \<open>callback_done\<close> of the host says which have. Those are applied in
  the order of submission; a callback that runs later is not followed, and the node it
  would update is read as it was.
\<close>

definition wait :: "host \<Rightarrow> world \<Rightarrow> (exn + node_result) list \<Rightarrow> world" where
  "wait env w futs =
     fold (\<lambda>future w'.
             case future of
               Inl ex \<Rightarrow> w'
             | Inr node_result \<Rightarrow>
                 if callback_done env (nr_node_id node_result) then task_callback env w' future
                 else w')
          futs w"

text \<open>Python's \<^verbatim>\<open>d[k]\<close>, \<^verbatim>\<open>k in d\<close> and iteration, on the values a metadata dictionary holds.\<close>

fun dict_getitem :: "pyval \<Rightarrow> string \<Rightarrow> exn + pyval" where
  "dict_getitem (PyDict kvs) k =
     (case map_of kvs k of None \<Rightarrow> Inl (KeyError k) | Some v \<Rightarrow> Inr v)"
| "dict_getitem v k = Inl TypeError"

fun py_contains :: "pyval \<Rightarrow> string \<Rightarrow> exn + bool" where
  "py_contains (PyDict kvs) k = Inr (k \<in> fst ` set kvs)"
| "py_contains (PyList xs) k = Inr (PyStr k \<in> set xs)"
| "py_contains (PyStr s) k = Inr (sublist k s)"
| "py_contains v k = Inl TypeError"

fun py_iter :: "pyval \<Rightarrow> exn + pyval list" where
  "py_iter (PyList xs) = Inr xs"
| "py_iter (PyDict kvs) = Inr (map (\<lambda>kv. PyStr (fst kv)) kvs)"
| "py_iter (PyStr s) = Inr (map (\<lambda>c. PyStr [c]) s)"
| "py_iter v = Inl TypeError"

text \<open>The name of a node must be a string for \<^verbatim>\<open>startswith\<close> to exist.\<close>

fun name_of :: "pyval \<Rightarrow> exn + string" where
  "name_of (PyStr s) = Inr s"
| "name_of v = Inl (AttributeError ''startswith'')"

text \<open>Sequencing of steps that read and may raise.\<close>

fun and_then :: "exn + 'a \<Rightarrow> ('a \<Rightarrow> exn + 'b) \<Rightarrow> exn + 'b" where
  "and_then (Inl ex) f = Inl ex"
| "and_then (Inr v) f = f v"

text \<open>The output of a node that is evaluated inline (lines 383 to 396).\<close>

definition inline_output :: "host \<Rightarrow> TransportGraph \<Rightarrow> node_id \<Rightarrow> string \<Rightarrow> exn + pyval" where
  "inline_output env g n node_name =
     (if startswith node_name parameter_prefix then get_node_value g n ''value''
      else
        (case get_dependencies g n of
           [] \<Rightarrow> Inl IndexError
         | parent # others \<Rightarrow>
             and_then (get_node_value g parent ''output'') (\<lambda>output.
               if startswith node_name attr_prefix
               then and_then (get_node_value g n ''attribute_name'') (\<lambda>attr. getattr env output attr)
               else and_then (get_node_value g n ''key'') (\<lambda>key. getitem env output key))))"

definition run_inline :: "host \<Rightarrow> world \<Rightarrow> node_id \<Rightarrow> string \<Rightarrow> unit run" where
  "run_inline env w n node_name =
     (case inline_output env (graph_of w) n node_name of
        Inl ex \<Rightarrow> Inl (ex, w)
      | Inr output \<Rightarrow>
          (let (start_time, w1) = now env w;
               (end_time, w2) = now env w1
           in case update_node (result_object w2)
                     (generate_node_result n (Some start_time) (Some end_time) (Some COMPLETED)
                        output None PyNone PyNone PyNone) of
                Inl ex \<Rightarrow> Inl (ex, w2)
              | Inr r \<Rightarrow> Inr ((), w2\<lparr>result_object := r\<rparr>)))"

text \<open>The dependencies of a task, rebuilt from its metadata (lines 429 to 469).\<close>

fun apply_all :: "host \<Rightarrow> string \<Rightarrow> pyval list \<Rightarrow> exn + pyval list" where
  "apply_all env kind [] = Inr []"
| "apply_all env kind (dep_json # rest) =
     and_then (deps_apply env kind dep_json) (\<lambda>dep.
       and_then (apply_all env kind rest) (\<lambda>deps. Inr (dep # deps)))"

definition apply_if_present :: "host \<Rightarrow> string \<Rightarrow> pyval \<Rightarrow> exn + pyval list" where
  "apply_if_present env kind deps =
     and_then (py_contains deps kind) (\<lambda>present.
       if present
       then and_then (dict_getitem deps kind) (\<lambda>d.
              and_then (deps_apply env kind d) (\<lambda>dep. Inr [dep]))
       else Inr [])"

definition collect_deps :: "host \<Rightarrow> TransportGraph \<Rightarrow> node_id \<Rightarrow> exn + pyval list \<times> pyval list" where
  "collect_deps env g n =
     and_then (and_then (get_node_value g n ''metadata'') (\<lambda>md. dict_getitem md ''deps'')) (\<lambda>deps.
     and_then (and_then (get_node_value g n ''metadata'') (\<lambda>md. dict_getitem md ''call_before''))
       (\<lambda>call_before_objs_json.
     and_then (and_then (get_node_value g n ''metadata'') (\<lambda>md. dict_getitem md ''call_after''))
       (\<lambda>call_after_objs_json.
     and_then (apply_if_present env ''bash'' deps) (\<lambda>bash.
     and_then (apply_if_present env ''pip'' deps) (\<lambda>pip.
     and_then (and_then (py_iter call_before_objs_json) (apply_all env ''call'')) (\<lambda>before.
     and_then (and_then (py_iter call_after_objs_json) (apply_all env ''call'')) (\<lambda>after.
       Inr (bash @ pip @ before, after))))))))"

text \<open>
  A task node: inputs, executor and dependencies are gathered, the node is marked
  \<^verbatim>\<open>RUNNING\<close>, and the job is submitted to the pool (lines 408 to 503). The value is the
  job's future: what \<^verbatim>\<open>_run_task\<close> raises or returns.
\<close>

definition submit_task ::
  "host \<Rightarrow> pyval \<times> pyval \<Rightarrow> world \<Rightarrow> node_id \<Rightarrow> string \<Rightarrow> (exn + node_result) run"
where
  "submit_task env post_processor w n node_name =
     (let g = graph_of w in
      case get_task_inputs n node_name g of
        Inl ex \<Rightarrow> Inl (ex, w)
      | Inr task_inputs \<Rightarrow>
          (let (start_time, w1) = now env w in
           case
             and_then (get_node_value g n ''function'') (\<lambda>serialized_callable.
             and_then (and_then (get_node_value g n ''metadata'') (\<lambda>md. dict_getitem md ''executor''))
               (\<lambda>selected_executor.
             and_then (and_then (get_node_value g n ''metadata'') (\<lambda>md. dict_getitem md ''executor_data''))
               (\<lambda>selected_executor_data.
             and_then (collect_deps env g n) (\<lambda>hooks.
               Inr (serialized_callable, selected_executor, selected_executor_data, hooks)))))
           of
             Inl ex \<Rightarrow> Inl (ex, w1)
           | Inr (serialized_callable, selected_executor, selected_executor_data, call_before, call_after) \<Rightarrow>
               (case update_node_result env w1
                       (generate_node_result n (Some start_time) None (Some RUNNING)
                          PyNone None PyNone PyNone PyNone) of
                  Inl (ex, w2) \<Rightarrow> Inl (ex, w2)
                | Inr (u, w2) \<Rightarrow>
                    (let w3 = w2\<lparr>trace := trace w2 @ [Submitted n node_name]\<rparr>;
                         (end_time, w4) = now env w3
                     in Inr (run_task env end_time n (r_dispatch_id (result_object w4))
                               (r_results_dir (result_object w4)) task_inputs serialized_callable
                               (selected_executor, selected_executor_data) call_before call_after
                               node_name post_processor,
                             w4)))))"

text \<open>One node of a wave (lines 376 to 503); the value is the list of the wave's futures.\<close>

definition schedule_node ::
  "host \<Rightarrow> pyval \<times> pyval \<Rightarrow> world \<Rightarrow> node_id \<Rightarrow> (exn + node_result) list \<Rightarrow> (exn + node_result) list run"
where
  "schedule_node env post_processor w n futs =
     (case and_then (get_node_value (graph_of w) n ''name'') name_of of
        Inl ex \<Rightarrow> Inl (ex, w)
      | Inr node_name \<Rightarrow>
          if startswith node_name subscript_prefix \<or> startswith node_name generator_prefix \<or>
             startswith node_name parameter_prefix \<or> startswith node_name attr_prefix
          then (case run_inline env w n node_name of
                  Inl (ex, w') \<Rightarrow> Inl (ex, w')
                | Inr (u, w') \<Rightarrow> Inr (futs, w'))
          else (case submit_task env post_processor w n node_name of
                  Inl (ex, w') \<Rightarrow> Inl (ex, w')
                | Inr (future, w') \<Rightarrow> Inr (futs @ [future], w')))"

fun schedule_wave ::
  "host \<Rightarrow> pyval \<times> pyval \<Rightarrow> world \<Rightarrow> node_id list \<Rightarrow> (exn + node_result) list \<Rightarrow> (exn + node_result) list run"
where
  "schedule_wave env post_processor w [] futs = Inr (futs, w)"
| "schedule_wave env post_processor w (n # rest) futs =
     (case schedule_node env post_processor w n futs of
        Inl (ex, w') \<Rightarrow> Inl (ex, w')
      | Inr (futs', w') \<Rightarrow> schedule_wave env post_processor w' rest futs')"

text \<open>
  The loop over the nodes of the wave that has just run (lines 510 to 529). The value
  is \<open>True\<close> when the loop has returned from \<^verbatim>\<open>_run_planned_workflow\<close>, \<open>False\<close> when
  it has found no node \<^verbatim>\<open>FAILED\<close> or \<^verbatim>\<open>CANCELLED\<close>. \<^verbatim>\<open>_get_node_status\<close>,
  \<^verbatim>\<open>_get_node_name\<close> and \<^verbatim>\<open>_get_node_error\<close> read the node's attributes.
\<close>

definition node_failed_message :: "host \<Rightarrow> pyval \<Rightarrow> pyval \<Rightarrow> string" where
  "node_failed_message env name err =
     ''Node '' @ py_str (host_str env) name @ '' failed: '' @ [CHR 0x0A] @ py_str (host_str env) err"

fun check_wave :: "host \<Rightarrow> world \<Rightarrow> node_id list \<Rightarrow> bool run" where
  "check_wave env w [] = Inr (False, w)"
| "check_wave env w (n # rest) =
     (case get_node_value (graph_of w) n ''status'' of
        Inl ex \<Rightarrow> Inl (ex, w)
      | Inr st \<Rightarrow>
          if st = PyStatus FAILED then
            (let w1 = w\<lparr>result_object := (result_object w)\<lparr>r_status := FAILED\<rparr>\<rparr>;
                 (end_time, w2) = now env w1;
                 w3 = w2\<lparr>result_object := (result_object w2)\<lparr>r_end_time := Some end_time\<rparr>\<rparr>
             in case and_then (get_node_value (graph_of w3) n ''name'') (\<lambda>name.
                     and_then (get_node_value (graph_of w3) n ''error'') (\<lambda>err.
                       Inr (node_failed_message env name err))) of
                  Inl ex \<Rightarrow> Inl (ex, w3)
                | Inr msg \<Rightarrow>
                    (case persist_and_notify env
                            (w3\<lparr>result_object := (result_object w3)\<lparr>r_error := Some msg\<rparr>\<rparr>) of
                       Inl (ex, w') \<Rightarrow> Inl (ex, w')
                     | Inr (u, w') \<Rightarrow> Inr (True, w')))
          else if st = PyStatus CANCELLED then
            (let w1 = w\<lparr>result_object := (result_object w)\<lparr>r_status := CANCELLED\<rparr>\<rparr>;
                 (end_time, w2) = now env w1;
                 w3 = w2\<lparr>result_object := (result_object w2)\<lparr>r_end_time := Some end_time\<rparr>\<rparr>
             in case persist_and_notify env w3 of
                  Inl (ex, w') \<Rightarrow> Inl (ex, w')
                | Inr (u, w') \<Rightarrow> Inr (True, w'))
          else check_wave env w rest)"

text \<open>
  The loop over the layers (lines 373 to 529): \<open>run_layers\<close> is the loop from the top
  of an iteration, \<open>after_wave\<close> is the loop from the point where \<^verbatim>\<open>wait\<close> has returned
  for the layer \<open>nodes\<close>, with the layers \<open>rest\<close> still to come. Jobs that are in flight
  when the scheduler raises are not followed further.
\<close>

fun run_layers :: "host \<Rightarrow> pyval \<times> pyval \<Rightarrow> world \<Rightarrow> node_id list list \<Rightarrow> bool run"
  and after_wave :: "host \<Rightarrow> pyval \<times> pyval \<Rightarrow> world \<Rightarrow> node_id list \<Rightarrow> node_id list list \<Rightarrow> bool run"
where
  "run_layers env post_processor w [] = Inr (False, w)"
| "run_layers env post_processor w (nodes # rest) =
     (case schedule_wave env post_processor w nodes [] of
        Inl (ex, w') \<Rightarrow> Inl (ex, w')
      | Inr (futs, w1) \<Rightarrow> after_wave env post_processor (wait env w1 futs) nodes rest)"
| "after_wave env post_processor w nodes rest =
     (case check_wave env w nodes of
        Inl (ex, w') \<Rightarrow> Inl (ex, w')
      | Inr (True, w') \<Rightarrow> Inr (True, w')
      | Inr (False, w') \<Rightarrow> run_layers env post_processor w' rest)"

text \<open>
  Post-processing (lines 531 to 617). The job is \<^verbatim>\<open>_run_task\<close> on
  \<^verbatim>\<open>_post_process\<close>, submitted under node id \<open>- 1\<close> and awaited at once. \<open>finish\<close> is
  the common end of every branch: the status and the error, if any, are set, then the
  end time, and the \<^verbatim>\<open>Result\<close> is persisted and sent. In the handler of line 576 these
  statements are outside any \<^verbatim>\<open>try\<close>, as in the other branches.
\<close>

definition finish :: "host \<Rightarrow> world \<Rightarrow> Status \<Rightarrow> string option \<Rightarrow> unit run" where
  "finish env w st err =
     (let w1 = w\<lparr>result_object := (result_object w)\<lparr>r_status := st\<rparr>\<rparr>;
          w2 = (case err of
                  None \<Rightarrow> w1
                | Some e \<Rightarrow> w1\<lparr>result_object := (result_object w1)\<lparr>r_error := Some e\<rparr>\<rparr>);
          (end_time, w3) = now env w2
      in persist_and_notify env
           (w3\<lparr>result_object := (result_object w3)\<lparr>r_end_time := Some end_time\<rparr>\<rparr>))"

definition order_value :: "node_id list list \<Rightarrow> pyval" where
  "order_value order = PyList (map (\<lambda>nodes. PyList (map PyInt nodes)) order)"

definition post_process_stage :: "host \<Rightarrow> pyval \<times> pyval \<Rightarrow> node_id list list \<Rightarrow> world \<Rightarrow> unit run" where
  "post_process_stage env post_processor order w =
     (let w1 = w\<lparr>result_object := (result_object w)\<lparr>r_status := POSTPROCESSING\<rparr>\<rparr> in
      if fst post_processor = PyStr ''client'' then finish env w1 PENDING_POSTPROCESSING None
      else
        (let post_processing_inputs =
               \<lparr>args = [make_transportable (lattice_value env (lattice (result_object w1))),
                        make_transportable (all_node_outputs env (result_object w1)),
                        make_transportable (order_value order)],
                kwargs = []\<rparr>;
             w2 = w1\<lparr>trace := trace w1 @ [Submitted (- 1) ''post_process'']\<rparr>;
             (pp_start_time, w3) = now env w2;
             (end_time, w4) = now env w3
         in case run_task env end_time (- 1) (r_dispatch_id (result_object w4))
                   (r_results_dir (result_object w4)) post_processing_inputs
                   (TransportableObject (PyFunction ''_post_process'')) post_processor [] []
                   ''post_process'' post_processor of
              Inl ex \<Rightarrow> finish env w4 POSTPROCESSING_FAILED (Some ''Post-processing failed'')
            | Inr post_process_result \<Rightarrow>
                if nr_status post_process_result \<noteq> Some COMPLETED then
                  finish env w4 POSTPROCESSING_FAILED
                    (Some (''Post-processing failed: '' @
                       py_str (host_str env) (nr_stderr post_process_result)))
                else
                  finish env
                    (w4\<lparr>result_object :=
                        (result_object w4)\<lparr>r_result := nr_output post_process_result\<rparr>\<rparr>)
                    COMPLETED None))"

text \<open>
  \<^verbatim>\<open>_run_planned_workflow\<close>. \<open>mark_running\<close> is its start (lines 362 to 364),
  \<open>post_processor_of\<close> the executor for post-processing and sublattices (lines 367 to
  369).
\<close>

definition mark_running :: "host \<Rightarrow> world \<Rightarrow> world" where
  "mark_running env w =
     (let w1 = w\<lparr>result_object := (result_object w)\<lparr>r_status := RUNNING\<rparr>\<rparr>;
          (start_time, w2) = now env w1
      in w2\<lparr>result_object := (result_object w2)\<lparr>r_start_time := Some start_time\<rparr>\<rparr>)"

definition post_processor_of :: "world \<Rightarrow> pyval \<times> pyval" where
  "post_processor_of w =
     (let pp_executor = get_metadata (lattice (result_object w)) ''workflow_executor'';
          pp_executor_data = get_metadata (lattice (result_object w)) ''workflow_executor_data''
      in (pp_executor, pp_executor_data))"

definition run_planned_workflow :: "host \<Rightarrow> world \<Rightarrow> unit run" where
  "run_planned_workflow env w =
     (let w1 = mark_running env w;
          post_processor = post_processor_of w1;
          order = get_topologically_sorted_graph (graph_of w1)
      in case run_layers env post_processor w1 order of
           Inl (ex, w') \<Rightarrow> Inl (ex, w')
         | Inr (True, w') \<Rightarrow> Inr ((), w')
         | Inr (False, w') \<Rightarrow> post_process_stage env post_processor order w')"

text \<open>\<^verbatim>\<open>_plan_workflow\<close>: the custom scheduling logic is a comment, so nothing changes.\<close>

definition plan_workflow :: "world \<Rightarrow> world" where
  "plan_workflow w =
     (if truthy (get_metadata (lattice (result_object w)) ''schedule'') then w else w)"

text \<open>
  Modelled from the spec: the constructor of \<^verbatim>\<open>Result\<close> and \<^verbatim>\<open>Result._initialize_nodes\<close>
  are not among the source files. A new \<^verbatim>\<open>Result\<close> has status \<^verbatim>\<open>NEW_OBJECT\<close> and no
  times, error or result; every node starts with status \<^verbatim>\<open>NEW_OBJECT\<close> and without
  times, output, error or captured streams.
\<close>

definition Result_init :: "Lattice \<Rightarrow> string \<Rightarrow> Result" where
  "Result_init l dir =
     \<lparr>r_dispatch_id = [], r_results_dir = dir, lattice = l, r_status = NEW_OBJECT,
      r_start_time = None, r_end_time = None, r_error = None, r_result = PyNone\<rparr>"

definition initialize_nodes :: "Result \<Rightarrow> Result" where
  "initialize_nodes r =
     set_graph r
       ((transport_graph (lattice r))
          \<lparr>tg_nodes := (\<lambda>n. map_option
             (\<lambda>bag. bag(''start_time'' := Some PyNone, ''end_time'' := Some PyNone,
                        ''status'' := Some (PyStatus NEW_OBJECT), ''output'' := Some PyNone,
                        ''error'' := Some PyNone, ''sublattice_result'' := Some PyNone,
                        ''stdout'' := Some PyNone, ''stderr'' := Some PyNone))
             (tg_nodes (transport_graph (lattice r)) n))\<rparr>)"

text \<open>The results directory of a lattice must be a string.\<close>

fun as_string :: "pyval \<Rightarrow> exn + string" where
  "as_string (PyStr s) = Inr s"
| "as_string v = Inl TypeError"

text \<open>
  \<^verbatim>\<open>run_workflow\<close>. \<open>initial_world\<close> is the state after the new \<^verbatim>\<open>Result\<close> has been
  given its dispatch id, its nodes have been initialized and it has been saved (lines
  657 to 667). \<open>Inl\<close> is an exception that reaches the caller; \<open>Inr\<close> is the state in
  which \<^verbatim>\<open>run_workflow\<close> returns its \<^verbatim>\<open>Result\<close>. The handler of line 676 sets the
  status, the end time and the error and then persists, outside any \<^verbatim>\<open>try\<close>: what
  that raises reaches the caller.
\<close>

definition initial_world :: "Lattice \<Rightarrow> string \<Rightarrow> string \<Rightarrow> world" where
  "initial_world l dir dispatch_id =
     save \<lparr>result_object = initialize_nodes ((Result_init l dir)\<lparr>r_dispatch_id := dispatch_id\<rparr>),
           ticks = 0, trace = []\<rparr>"

definition run_workflow :: "host \<Rightarrow> string \<Rightarrow> string \<Rightarrow> exn + world" where
  "run_workflow env dispatch_id json_lattice =
     (case deserialize_from_json env json_lattice of
        Inl ex \<Rightarrow> Inl ex
      | Inr l \<Rightarrow>
          (case and_then (case metadata l ''results_dir'' of
                            None \<Rightarrow> Inl (KeyError ''results_dir'')
                          | Some v \<Rightarrow> Inr v) as_string of
             Inl ex \<Rightarrow> Inl ex
           | Inr dir \<Rightarrow>
               (let w = initial_world l dir dispatch_id
                in if r_status (result_object w) = COMPLETED then Inr w
                   else
                     (case run_planned_workflow env (plan_workflow w) of
                        Inr (u, w') \<Rightarrow> Inr w'
                      | Inl (ex, w') \<Rightarrow>
                          (let w1 = w'\<lparr>result_object := (result_object w')\<lparr>r_status := FAILED\<rparr>\<rparr>;
                               (end_time, w2) = now env w1;
                               w3 = w2\<lparr>result_object := (result_object w2)
                                      \<lparr>r_end_time := Some end_time,
                                       r_error := Some (format_exception env ex)\<rparr>\<rparr>
                           in case upsert env w3 of
                                Inl (ex', w4) \<Rightarrow> Inl ex'
                              | Inr (u, w4) \<Rightarrow> Inr (save w4))))))"

subsection \<open>Observations of a run and example dispatches\<close>

text \<open>What a step raised, what it returned, and the state it left.\<close>

definition raised :: "'a run \<Rightarrow> exn option" where
  "raised r = (case r of Inl (ex, w) \<Rightarrow> Some ex | Inr (v, w) \<Rightarrow> None)"

definition returned :: "'a run \<Rightarrow> 'a option" where
  "returned r = (case r of Inl (ex, w) \<Rightarrow> None | Inr (v, w) \<Rightarrow> Some v)"

definition outcome :: "'a run \<Rightarrow> world" where
  "outcome r = (case r of Inl (ex, w) \<Rightarrow> w | Inr (v, w) \<Rightarrow> w)"

text \<open>
  The workflow-level fields of the \<^verbatim>\<open>Result\<close> in a state, with the number of clock
  readings and the jobs submitted so far.
\<close>

definition report ::
  "world \<Rightarrow> Status \<times> datetime option \<times> string option \<times> pyval \<times> nat \<times> event list"
where
  "report w =
     (r_status (result_object w), r_end_time (result_object w), r_error (result_object w),
      r_result (result_object w), ticks w, submissions w)"

definition summary ::
  "'a run \<Rightarrow> exn option \<times> 'a option \<times> Status \<times> datetime option \<times> string option \<times> pyval \<times> nat \<times> event list"
where
  "summary r = (raised r, returned r, report (outcome r))"

definition node_attr :: "'a run \<Rightarrow> node_id \<Rightarrow> string \<Rightarrow> exn + pyval" where
  "node_attr r n k = get_node_value (graph_of (outcome r)) n k"

text \<open>
  The failure scenario: node 0 is the parameter 0, node 1 is the task \<open>reciprocal\<close>
  of node 0, node 2 is the task \<open>identity\<close> of node 1. Both tasks select the executor
  \<open>local\<close>.
\<close>

definition task_metadata :: pyval where
  "task_metadata =
     PyDict [(''executor'', PyStr ''local''), (''executor_data'', PyDict []),
             (''deps'', PyDict []), (''call_before'', PyList []), (''call_after'', PyList [])]"

definition s4_graph :: "pyval \<Rightarrow> TransportGraph" where
  "s4_graph md =
     \<lparr>tg_nodes = map_of
        [(0, map_of [(''name'', PyStr '':parameter:0''), (''value'', TransportableObject (PyInt 0))]),
         (1, map_of [(''name'', PyStr ''reciprocal''),
                     (''function'', TransportableObject (PyFunction ''reciprocal'')),
                     (''metadata'', md)]),
         (2, map_of [(''name'', PyStr ''identity''),
                     (''function'', TransportableObject (PyFunction ''identity'')),
                     (''metadata'', md)])],
      tg_dependencies = (\<lambda>n. if n = 1 then [0] else if n = 2 then [1] else []),
      tg_edge_data = (\<lambda>p n.
        if (p = 0 \<and> n = 1) \<or> (p = 1 \<and> n = 2)
        then [\<lparr>param_type = ''kwarg'', edge_name = ''x''\<rparr>] else []),
      tg_order = [[0], [1], [2]]\<rparr>"

definition s4_lattice :: "string \<Rightarrow> pyval \<Rightarrow> Lattice" where
  "s4_lattice workflow_executor md =
     \<lparr>transport_graph = s4_graph md,
      metadata = map_of [(''results_dir'', PyStr ''/results''),
                         (''workflow_executor'', PyStr workflow_executor),
                         (''workflow_executor_data'', PyDict [])]\<rparr>"

definition s4_world :: world where
  "s4_world = initial_world (s4_lattice ''local'' task_metadata) ''/results'' ''d1''"

text \<open>
  The same workflow, to be post-processed by the client; and a workflow of one
  parameter node and no task, to be post-processed by the client.
\<close>

definition client_world :: world where
  "client_world = initial_world (s4_lattice ''client'' task_metadata) ''/results'' ''d2''"

definition parameter_lattice :: Lattice where
  "parameter_lattice =
     \<lparr>transport_graph =
        \<lparr>tg_nodes = map_of
           [(0, map_of [(''name'', PyStr '':parameter:0''), (''value'', TransportableObject (PyInt 0))])],
         tg_dependencies = (\<lambda>n. []),
         tg_edge_data = (\<lambda>p n. []),
         tg_order = [[0]]\<rparr>,
      metadata = map_of [(''results_dir'', PyStr ''/results''),
                         (''workflow_executor'', PyStr ''client''),
                         (''workflow_executor_data'', PyDict [])]\<rparr>"

definition parameter_world :: world where
  "parameter_world = initial_world parameter_lattice ''/results'' ''d7''"

text \<open>A host that deserializes every lattice to the failure scenario without executor metadata.\<close>

definition broken_host :: host where
  "broken_host =
     plain_host\<lparr>deserialize_from_json := (\<lambda>s. Inr (s4_lattice ''local'' (PyDict [])))\<rparr>"


text \<open>
  A state in which node 0, a parameter holding the list \<open>[7, 8]\<close>, has its output;
  node 1 subscripts it with key 1 and node 2 reads its attribute \<open>real\<close>. On the host
  \<open>indexing_host\<close> lists can be indexed and every object is its own \<open>real\<close>.
\<close>

definition pure_world :: world where
  "pure_world =
     \<lparr>result_object =
        \<lparr>r_dispatch_id = ''d5'', r_results_dir = ''/results'',
         lattice =
           \<lparr>transport_graph =
              \<lparr>tg_nodes = map_of
                 [(0, map_of [(''name'', PyStr '':parameter:p''),
                              (''value'', PyList [PyInt 7, PyInt 8]),
                              (''output'', PyList [PyInt 7, PyInt 8])]),
                  (1, map_of [(''name'', PyStr '':subscript:p[1]''), (''key'', PyInt 1)]),
                  (2, map_of [(''name'', PyStr '':attribute:p.real''),
                              (''attribute_name'', PyStr ''real'')])],
               tg_dependencies = (\<lambda>n. if n = 1 \<or> n = 2 then [0] else []),
               tg_edge_data = (\<lambda>p n. []),
               tg_order = [[0], [1, 2]]\<rparr>,
            metadata = map_of [(''workflow_executor'', PyStr ''local'')]\<rparr>,
         r_status = RUNNING, r_start_time = Some 0, r_end_time = None, r_error = None,
         r_result = PyNone\<rparr>,
      ticks = 1, trace = []\<rparr>"

definition indexing_host :: host where
  "indexing_host =
     plain_host
       \<lparr>getitem := (\<lambda>obj key.
          case (obj, key) of
            (PyList xs, PyInt i) \<Rightarrow>
              if 0 \<le> i \<and> nat i < length xs then Inr (xs ! nat i) else Inl IndexError
          | _ \<Rightarrow> Inl TypeError),
        getattr := (\<lambda>obj attr.
          if attr = PyStr ''real'' then Inr obj else Inl (AttributeError ''attribute''))\<rparr>"

subsection \<open>Properties of the scheduler\<close>

lemma returned_Some: "returned r = Some v \<Longrightarrow> r = Inr (v, outcome r)"
  by (auto simp: returned_def outcome_def split: sum.splits)

lemmas eval_defs =
  run_planned_workflow_def mark_running_def now_def post_processor_of_def get_metadata_def
  s4_lattice_def s4_graph_def task_metadata_def initial_world_def initialize_nodes_def
  Result_init_def set_graph_def save_def upsert_def persist_and_notify_def send_update_def
  graph_of_def
  get_topologically_sorted_graph_def get_dependencies_def get_edge_data_def
  schedule_node_def get_node_value_def set_node_value_def run_inline_def inline_output_def
  update_node_def update_node_result_def generate_node_result_def opt_str_def opt_status_def
  opt_datetime_def submit_task_def get_task_inputs_def collect_deps_def apply_if_present_def
  run_task.simps resolve_executor_def execute_task_def await_sublattice_def
  wait_def task_callback_def node_failed_message_def post_process_stage_def finish_def
  order_value_def plan_workflow_def outcome_def raised_def returned_def report_def summary_def
  submissions_def startswith_def prefix_defs status_defs Let_def plain_host_def

lemma set_attr_Inr:
  assumes "set_attr n k v m = Inr g'"
  shows "\<exists>g. m = Inr g \<and> tg_dependencies g' = tg_dependencies g \<and> tg_edge_data g' = tg_edge_data g \<and>
           tg_order g' = tg_order g \<and>
           (\<forall>n' k'. get_node_value g' n' k' =
              (if n' = n \<and> k' = k \<and> v \<noteq> PyNone then Inr v else get_node_value g n' k'))"
proof (cases m)
  case (Inl ex)
  with assms show ?thesis by simp
next
  case (Inr g)
  with assms show ?thesis
    by (auto simp: set_node_value_def get_node_value_def split: if_splits option.splits)
qed

lemma update_node_values:
  assumes "update_node r nr = Inr r'"
  shows "get_node_value (transport_graph (lattice r')) n' k' =
    (if n' = nr_node_id nr \<and> k' = ''sublattice_result'' \<and> nr_sublattice_result nr \<noteq> PyNone
       then Inr (nr_sublattice_result nr)
     else if n' = nr_node_id nr \<and> k' = ''stderr'' \<and> nr_stderr nr \<noteq> PyNone then Inr (nr_stderr nr)
     else if n' = nr_node_id nr \<and> k' = ''stdout'' \<and> nr_stdout nr \<noteq> PyNone then Inr (nr_stdout nr)
     else if n' = nr_node_id nr \<and> k' = ''error'' \<and> opt_str (nr_error nr) \<noteq> PyNone
       then Inr (opt_str (nr_error nr))
     else if n' = nr_node_id nr \<and> k' = ''output'' \<and> nr_output nr \<noteq> PyNone then Inr (nr_output nr)
     else if n' = nr_node_id nr \<and> k' = ''status'' \<and> opt_status (nr_status nr) \<noteq> PyNone
       then Inr (opt_status (nr_status nr))
     else if n' = nr_node_id nr \<and> k' = ''end_time'' \<and> opt_datetime (nr_end_time nr) \<noteq> PyNone
       then Inr (opt_datetime (nr_end_time nr))
     else if n' = nr_node_id nr \<and> k' = ''start_time'' \<and> opt_datetime (nr_start_time nr) \<noteq> PyNone
       then Inr (opt_datetime (nr_start_time nr))
     else get_node_value (transport_graph (lattice r)) n' k')"
proof -
  from assms obtain g8 where
    s8: "set_attr (nr_node_id nr) ''sublattice_result'' (nr_sublattice_result nr)
          (set_attr (nr_node_id nr) ''stderr'' (nr_stderr nr)
          (set_attr (nr_node_id nr) ''stdout'' (nr_stdout nr)
          (set_attr (nr_node_id nr) ''error'' (opt_str (nr_error nr))
          (set_attr (nr_node_id nr) ''output'' (nr_output nr)
          (set_attr (nr_node_id nr) ''status'' (opt_status (nr_status nr))
          (set_attr (nr_node_id nr) ''end_time'' (opt_datetime (nr_end_time nr))
          (set_attr (nr_node_id nr) ''start_time'' (opt_datetime (nr_start_time nr))
             (Inr (transport_graph (lattice r)))))))))) = Inr g8"
    and r': "r' = set_graph r g8"
    by (auto simp: update_node_def Let_def split: sum.splits)
  from set_attr_Inr[OF s8] obtain g7 where s7: "set_attr (nr_node_id nr) ''stderr'' (nr_stderr nr)
          (set_attr (nr_node_id nr) ''stdout'' (nr_stdout nr)
          (set_attr (nr_node_id nr) ''error'' (opt_str (nr_error nr))
          (set_attr (nr_node_id nr) ''output'' (nr_output nr)
          (set_attr (nr_node_id nr) ''status'' (opt_status (nr_status nr))
          (set_attr (nr_node_id nr) ''end_time'' (opt_datetime (nr_end_time nr))
          (set_attr (nr_node_id nr) ''start_time'' (opt_datetime (nr_start_time nr))
             (Inr (transport_graph (lattice r))))))))) = Inr g7"
    and v8: "\<And>n' k'. get_node_value g8 n' k' =
       (if n' = nr_node_id nr \<and> k' = ''sublattice_result'' \<and> nr_sublattice_result nr \<noteq> PyNone
        then Inr (nr_sublattice_result nr) else get_node_value g7 n' k')"
    by blast
  from set_attr_Inr[OF s7] obtain g6 where s6: "set_attr (nr_node_id nr) ''stdout'' (nr_stdout nr)
          (set_attr (nr_node_id nr) ''error'' (opt_str (nr_error nr))
          (set_attr (nr_node_id nr) ''output'' (nr_output nr)
          (set_attr (nr_node_id nr) ''status'' (opt_status (nr_status nr))
          (set_attr (nr_node_id nr) ''end_time'' (opt_datetime (nr_end_time nr))
          (set_attr (nr_node_id nr) ''start_time'' (opt_datetime (nr_start_time nr))
             (Inr (transport_graph (lattice r)))))))) = Inr g6"
    and v7: "\<And>n' k'. get_node_value g7 n' k' =
       (if n' = nr_node_id nr \<and> k' = ''stderr'' \<and> nr_stderr nr \<noteq> PyNone
        then Inr (nr_stderr nr) else get_node_value g6 n' k')"
    by blast
  from set_attr_Inr[OF s6] obtain g5 where s5: "set_attr (nr_node_id nr) ''error'' (opt_str (nr_error nr))
          (set_attr (nr_node_id nr) ''output'' (nr_output nr)
          (set_attr (nr_node_id nr) ''status'' (opt_status (nr_status nr))
          (set_attr (nr_node_id nr) ''end_time'' (opt_datetime (nr_end_time nr))
          (set_attr (nr_node_id nr) ''start_time'' (opt_datetime (nr_start_time nr))
             (Inr (transport_graph (lattice r))))))) = Inr g5"
    and v6: "\<And>n' k'. get_node_value g6 n' k' =
       (if n' = nr_node_id nr \<and> k' = ''stdout'' \<and> nr_stdout nr \<noteq> PyNone
        then Inr (nr_stdout nr) else get_node_value g5 n' k')"
    by blast
  from set_attr_Inr[OF s5] obtain g4 where s4: "set_attr (nr_node_id nr) ''output'' (nr_output nr)
          (set_attr (nr_node_id nr) ''status'' (opt_status (nr_status nr))
          (set_attr (nr_node_id nr) ''end_time'' (opt_datetime (nr_end_time nr))
          (set_attr (nr_node_id nr) ''start_time'' (opt_datetime (nr_start_time nr))
             (Inr (transport_graph (lattice r)))))) = Inr g4"
    and v5: "\<And>n' k'. get_node_value g5 n' k' =
       (if n' = nr_node_id nr \<and> k' = ''error'' \<and> opt_str (nr_error nr) \<noteq> PyNone
        then Inr (opt_str (nr_error nr)) else get_node_value g4 n' k')"
    by blast
  from set_attr_Inr[OF s4] obtain g3 where s3: "set_attr (nr_node_id nr) ''status'' (opt_status (nr_status nr))
          (set_attr (nr_node_id nr) ''end_time'' (opt_datetime (nr_end_time nr))
          (set_attr (nr_node_id nr) ''start_time'' (opt_datetime (nr_start_time nr))
             (Inr (transport_graph (lattice r))))) = Inr g3"
    and v4: "\<And>n' k'. get_node_value g4 n' k' =
       (if n' = nr_node_id nr \<and> k' = ''output'' \<and> nr_output nr \<noteq> PyNone
        then Inr (nr_output nr) else get_node_value g3 n' k')"
    by blast
  from set_attr_Inr[OF s3] obtain g2 where s2: "set_attr (nr_node_id nr) ''end_time'' (opt_datetime (nr_end_time nr))
          (set_attr (nr_node_id nr) ''start_time'' (opt_datetime (nr_start_time nr))
             (Inr (transport_graph (lattice r)))) = Inr g2"
    and v3: "\<And>n' k'. get_node_value g3 n' k' =
       (if n' = nr_node_id nr \<and> k' = ''status'' \<and> opt_status (nr_status nr) \<noteq> PyNone
        then Inr (opt_status (nr_status nr)) else get_node_value g2 n' k')"
    by blast
  from set_attr_Inr[OF s2] obtain g1 where s1: "set_attr (nr_node_id nr) ''start_time'' (opt_datetime (nr_start_time nr))
             (Inr (transport_graph (lattice r))) = Inr g1"
    and v2: "\<And>n' k'. get_node_value g2 n' k' =
       (if n' = nr_node_id nr \<and> k' = ''end_time'' \<and> opt_datetime (nr_end_time nr) \<noteq> PyNone
        then Inr (opt_datetime (nr_end_time nr)) else get_node_value g1 n' k')"
    by blast
  from set_attr_Inr[OF s1] have
    v1: "\<And>n' k'. get_node_value g1 n' k' =
       (if n' = nr_node_id nr \<and> k' = ''start_time'' \<and> opt_datetime (nr_start_time nr) \<noteq> PyNone
        then Inr (opt_datetime (nr_start_time nr)) else get_node_value (transport_graph (lattice r)) n' k')"
    by blast
  have "transport_graph (lattice r') = g8"
    by (simp add: r' set_graph_def)
  then show ?thesis
    by (simp only: v8 v7 v6 v5 v4 v3 v2 v1)
qed

lemma inline_output_cases:
  "(startswith node_name parameter_prefix \<longrightarrow>
      inline_output env g n node_name = get_node_value g n ''value'') \<and>
   (\<not> startswith node_name parameter_prefix \<and> startswith node_name attr_prefix \<and>
    get_dependencies g n = parent # others \<and> get_node_value g parent ''output'' = Inr out \<and>
    get_node_value g n ''attribute_name'' = Inr attr \<longrightarrow>
      inline_output env g n node_name = getattr env out attr) \<and>
   (\<not> startswith node_name parameter_prefix \<and> \<not> startswith node_name attr_prefix \<and>
    get_dependencies g n = parent # others \<and> get_node_value g parent ''output'' = Inr out \<and>
    get_node_value g n ''key'' = Inr key \<longrightarrow>
      inline_output env g n node_name = getitem env out key)"
  by (simp add: inline_output_def)








text \<open>
  Claim C7, on a dispatch whose lattice has one parameter node and no task and whose
  workflow executor is \<open>client\<close>: \<^verbatim>\<open>_run_planned_workflow\<close> sets the status to
  \<^verbatim>\<open>PENDING_POSTPROCESSING\<close> and the end time, assigns no result and submits nothing, as
  the claim says; but it does not return: the \<^verbatim>\<open>with DispatchDB()\<close> statement of line 541
  raises. With task nodes, as in \<open>client_world\<close>, the same statement raises in
  \<^verbatim>\<open>update_node_result\<close> before the first task is submitted, with the workflow still
  \<^verbatim>\<open>RUNNING\<close>.
\<close>

theorem client_workflow_raises_when_persisting:
  "summary (run_planned_workflow plain_host parameter_world) =
     (Some (AttributeError ''__enter__''), None, PENDING_POSTPROCESSING, Some 3, None, PyNone, 4, []) \<and>
   summary (run_planned_workflow plain_host client_world) =
     (Some (AttributeError ''__enter__''), None, RUNNING, None, None, PyNone, 4, [])"
  by (simp add: eval_defs client_world_def parameter_world_def parameter_lattice_def)

text \<open>
  Claim C8, as stated: a node evaluated inline is recorded with \<^verbatim>\<open>start_time\<close> equal to
  \<^verbatim>\<open>end_time\<close>. The two times are two readings of the clock, taken one after the other:
  on a clock that moves between them they differ.
\<close>

theorem inline_node_times_differ:
  "node_attr (schedule_node plain_host (PyStr ''local'', PyDict []) (mark_running plain_host s4_world) 0 [])
     0 ''start_time'' = Inr (PyDatetime 1) \<and>
   node_attr (schedule_node plain_host (PyStr ''local'', PyDict []) (mark_running plain_host s4_world) 0 [])
     0 ''end_time'' = Inr (PyDatetime 2)"
  by (simp add: eval_defs s4_world_def node_attr_def)

text \<open>
  Claim C8, amended. A node whose name begins with the parameter, subscript, attribute
  or generator marker is evaluated by the scheduler itself: no job is submitted and no
  future is added. Its status becomes \<^verbatim>\<open>COMPLETED\<close>, its \<^verbatim>\<open>start_time\<close> and \<^verbatim>\<open>end_time\<close> are
  the next two readings of the clock, and its output, when not \<^verbatim>\<open>None\<close>, is recorded. The
  output of a parameter node is its \<^verbatim>\<open>value\<close> attribute; that of an attribute node is
  the attribute \<^verbatim>\<open>attribute_name\<close> of the output of its first parent; that of a
  subscript or generator node is the output of its first parent indexed by \<^verbatim>\<open>key\<close>.
\<close>

theorem inline_node:
  assumes name: "and_then (get_node_value (graph_of w) n ''name'') name_of = Inr node_name"
    and pure: "startswith node_name parameter_prefix \<or> startswith node_name subscript_prefix \<or>
               startswith node_name attr_prefix \<or> startswith node_name generator_prefix"
    and ok: "schedule_node env post_processor w n futs = Inr (futs', w')"
  shows "futs' = futs \<and> trace w' = trace w \<and>
    (\<exists>output. inline_output env (graph_of w) n node_name = Inr output \<and>
       get_node_value (graph_of w') n ''output'' =
         (if output = PyNone then get_node_value (graph_of w) n ''output'' else Inr output)) \<and>
    get_node_value (graph_of w') n ''status'' = Inr (PyStatus COMPLETED) \<and>
    get_node_value (graph_of w') n ''start_time'' = Inr (PyDatetime (clock env (ticks w))) \<and>
    get_node_value (graph_of w') n ''end_time'' = Inr (PyDatetime (clock env (Suc (ticks w)))) \<and>
    (startswith node_name parameter_prefix \<longrightarrow>
       inline_output env (graph_of w) n node_name = get_node_value (graph_of w) n ''value'') \<and>
    (\<forall>parent others out attr.
       \<not> startswith node_name parameter_prefix \<and> startswith node_name attr_prefix \<and>
       get_dependencies (graph_of w) n = parent # others \<and>
       get_node_value (graph_of w) parent ''output'' = Inr out \<and>
       get_node_value (graph_of w) n ''attribute_name'' = Inr attr \<longrightarrow>
         inline_output env (graph_of w) n node_name = getattr env out attr) \<and>
    (\<forall>parent others out key.
       \<not> startswith node_name parameter_prefix \<and> \<not> startswith node_name attr_prefix \<and>
       get_dependencies (graph_of w) n = parent # others \<and>
       get_node_value (graph_of w) parent ''output'' = Inr out \<and>
       get_node_value (graph_of w) n ''key'' = Inr key \<longrightarrow>
         inline_output env (graph_of w) n node_name = getitem env out key)"
proof -
  from name pure ok obtain u where ri: "run_inline env w n node_name = Inr (u, w')" and f: "futs' = futs"
    by (auto simp: schedule_node_def split: sum.splits)
  from ri obtain outp r' where
    out: "inline_output env (graph_of w) n node_name = Inr outp"
    and upd: "update_node (result_object w)
                (generate_node_result n (Some (clock env (ticks w))) (Some (clock env (Suc (ticks w))))
                   (Some COMPLETED) outp None PyNone PyNone PyNone) = Inr r'"
    and w': "w' = w\<lparr>ticks := Suc (Suc (ticks w)), result_object := r'\<rparr>"
    by (auto simp: run_inline_def now_def Let_def split: sum.splits)
  have g: "graph_of w' = transport_graph (lattice r')"
    by (simp add: w' graph_of_def)
  note v = update_node_values[OF upd, folded graph_of_def]
  have 1: "get_node_value (graph_of w') n ''output'' =
         (if outp = PyNone then get_node_value (graph_of w) n ''output'' else Inr outp)"
    by (simp add: g v generate_node_result_def opt_str_def opt_status_def opt_datetime_def)
  have 2: "get_node_value (graph_of w') n ''status'' = Inr (PyStatus COMPLETED)"
    by (simp add: g v generate_node_result_def opt_str_def opt_status_def opt_datetime_def)
  have 3: "get_node_value (graph_of w') n ''start_time'' = Inr (PyDatetime (clock env (ticks w)))"
    by (simp add: g v generate_node_result_def opt_str_def opt_status_def opt_datetime_def)
  have 4: "get_node_value (graph_of w') n ''end_time'' = Inr (PyDatetime (clock env (Suc (ticks w))))"
    by (simp add: g v generate_node_result_def opt_str_def opt_status_def opt_datetime_def)
  have 5: "trace w' = trace w"
    by (simp add: w')
  from f 5 out 1 2 3 4 inline_output_cases[of node_name env "graph_of w" n]
  show ?thesis by (simp add: inline_output_def)
qed

theorem inline_node_witness:
  "(\<exists>w'. schedule_node indexing_host (PyStr ''local'', PyNone) pure_world 0 [] = Inr ([], w') \<and>
      trace w' = [] \<and>
      get_node_value (graph_of w') 0 ''output'' = Inr (PyList [PyInt 7, PyInt 8]) \<and>
      get_node_value (graph_of w') 0 ''status'' = Inr (PyStatus COMPLETED) \<and>
      get_node_value (graph_of w') 0 ''start_time'' = Inr (PyDatetime 1) \<and>
      get_node_value (graph_of w') 0 ''end_time'' = Inr (PyDatetime 2)) \<and>
   (\<exists>w'. schedule_node indexing_host (PyStr ''local'', PyNone) pure_world 1 [] = Inr ([], w') \<and>
      trace w' = [] \<and>
      get_node_value (graph_of w') 1 ''output'' = Inr (PyInt 8) \<and>
      get_node_value (graph_of w') 1 ''status'' = Inr (PyStatus COMPLETED)) \<and>
   (\<exists>w'. schedule_node indexing_host (PyStr ''local'', PyNone) pure_world 2 [] = Inr ([], w') \<and>
      trace w' = [] \<and>
      get_node_value (graph_of w') 2 ''output'' = Inr (PyList [PyInt 7, PyInt 8]) \<and>
      get_node_value (graph_of w') 2 ''status'' = Inr (PyStatus COMPLETED))"
proof -
  let ?pp = "(PyStr ''local'', PyNone)"
  let ?g = "graph_of pure_world"
  have names:
    "and_then (get_node_value ?g 0 ''name'') name_of = Inr '':parameter:p''"
    "and_then (get_node_value ?g 1 ''name'') name_of = Inr '':subscript:p[1]''"
    "and_then (get_node_value ?g 2 ''name'') name_of = Inr '':attribute:p.real''"
    by (simp_all add: eval_defs pure_world_def indexing_host_def)
  have kinds:
    "startswith '':parameter:p'' parameter_prefix \<or> startswith '':parameter:p'' subscript_prefix \<or>
     startswith '':parameter:p'' attr_prefix \<or> startswith '':parameter:p'' generator_prefix"
    "startswith '':subscript:p[1]'' parameter_prefix \<or> startswith '':subscript:p[1]'' subscript_prefix \<or>
     startswith '':subscript:p[1]'' attr_prefix \<or> startswith '':subscript:p[1]'' generator_prefix"
    "startswith '':attribute:p.real'' parameter_prefix \<or> startswith '':attribute:p.real'' subscript_prefix \<or>
     startswith '':attribute:p.real'' attr_prefix \<or> startswith '':attribute:p.real'' generator_prefix"
    by (simp_all add: startswith_def prefix_defs)
  have which:
    "startswith '':parameter:p'' parameter_prefix"
    "\<not> startswith '':subscript:p[1]'' parameter_prefix \<and> \<not> startswith '':subscript:p[1]'' attr_prefix"
    "\<not> startswith '':attribute:p.real'' parameter_prefix \<and> startswith '':attribute:p.real'' attr_prefix"
    by (simp_all add: startswith_def prefix_defs)
  have reads:
    "get_node_value ?g 0 ''value'' = Inr (PyList [PyInt 7, PyInt 8])"
    "get_dependencies ?g 1 = 0 # []" "get_dependencies ?g 2 = 0 # []"
    "get_node_value ?g 0 ''output'' = Inr (PyList [PyInt 7, PyInt 8])"
    "get_node_value ?g 1 ''key'' = Inr (PyInt 1)"
    "get_node_value ?g 2 ''attribute_name'' = Inr (PyStr ''real'')"
    "getitem indexing_host (PyList [PyInt 7, PyInt 8]) (PyInt 1) = Inr (PyInt 8)"
    "getattr indexing_host (PyList [PyInt 7, PyInt 8]) (PyStr ''real'') = Inr (PyList [PyInt 7, PyInt 8])"
    "clock indexing_host (ticks pure_world) = 1" "clock indexing_host (Suc (ticks pure_world)) = 2"
    "trace pure_world = []"
    by (simp_all add: eval_defs pure_world_def indexing_host_def)
  have ok:
    "returned (schedule_node indexing_host ?pp pure_world 0 []) = Some []"
    "returned (schedule_node indexing_host ?pp pure_world 1 []) = Some []"
    "returned (schedule_node indexing_host ?pp pure_world 2 []) = Some []"
    by (simp_all add: eval_defs pure_world_def indexing_host_def)
  from inline_node[OF names(1) kinds(1) returned_Some[OF ok(1)]] which(1) reads
  have 0: "\<exists>w'. schedule_node indexing_host ?pp pure_world 0 [] = Inr ([], w') \<and>
      trace w' = [] \<and>
      get_node_value (graph_of w') 0 ''output'' = Inr (PyList [PyInt 7, PyInt 8]) \<and>
      get_node_value (graph_of w') 0 ''status'' = Inr (PyStatus COMPLETED) \<and>
      get_node_value (graph_of w') 0 ''start_time'' = Inr (PyDatetime 1) \<and>
      get_node_value (graph_of w') 0 ''end_time'' = Inr (PyDatetime 2)"
    using returned_Some[OF ok(1)] by auto
  from inline_node[OF names(2) kinds(2) returned_Some[OF ok(2)]] which(2) reads
  have 1: "\<exists>w'. schedule_node indexing_host ?pp pure_world 1 [] = Inr ([], w') \<and>
      trace w' = [] \<and>
      get_node_value (graph_of w') 1 ''output'' = Inr (PyInt 8) \<and>
      get_node_value (graph_of w') 1 ''status'' = Inr (PyStatus COMPLETED)"
    using returned_Some[OF ok(2)] by auto
  from inline_node[OF names(3) kinds(3) returned_Some[OF ok(3)]] which(3) reads
  have 2: "\<exists>w'. schedule_node indexing_host ?pp pure_world 2 [] = Inr ([], w') \<and>
      trace w' = [] \<and>
      get_node_value (graph_of w') 2 ''output'' = Inr (PyList [PyInt 7, PyInt 8]) \<and>
      get_node_value (graph_of w') 2 ''status'' = Inr (PyStatus COMPLETED)"
    using returned_Some[OF ok(3)] by auto
  from 0 1 2 show ?thesis by blast
qed

text \<open>
  Claim C10, on a dispatch whose first task has no executor in its metadata: running the
  workflow raises \<^verbatim>\<open>KeyError\<close>, which \<^verbatim>\<open>run_workflow\<close> catches; after the handler has set
  the status, the end time and the error, its own \<^verbatim>\<open>with DispatchDB()\<close> statement of line
  680 raises, and that exception reaches the caller of \<^verbatim>\<open>run_workflow\<close>.
\<close>

theorem run_workflow_handler_raises:
  "raised (run_planned_workflow broken_host
             (plan_workflow (initial_world (s4_lattice ''local'' (PyDict [])) ''/results'' ''d4''))) =
     Some (KeyError ''executor'') \<and>
   run_workflow broken_host ''d4'' ''{}'' = Inl (AttributeError ''__enter__'')"
  by (simp add: eval_defs run_workflow_def broken_host_def)

end
